theory Spec2Isabelle
  imports Complex_Main
begin

section \<open>Tensors\<close>

text \<open>
  A tensor is its shape together with its entries in row-major order. Entries are real
  numbers standing for the finite float values of the source: there is no NaN and no
  infinity, and arithmetic is exact, with one exception. The exponential keeps the
  underflow of float32, since the sign of its result depends on it.
\<close>

datatype tensor = Tensor (shape: "nat list") (vals: "real list")

datatype error =
    AssertionError
  | NotImplementedError
  | UnboundLocalError
  | AttributeError
  | RuntimeError
  | IndexError
  | ValueError

text \<open>Sequencing of fallible steps: the first error raised is the result.\<close>

definition bindE :: "error + 'a \<Rightarrow> ('a \<Rightarrow> error + 'b) \<Rightarrow> error + 'b" where
  "bindE m f = (case m of Inl e \<Rightarrow> Inl e | Inr v \<Rightarrow> f v)"

definition wf_tensor :: "tensor \<Rightarrow> bool" where
  "wf_tensor t = (length (vals t) = prod_list (shape t))"

text \<open>\<open>t.dim()\<close> and elementwise maps (\<open>torch.exp\<close>, \<open>torch.sqrt\<close>, \<open>torch.log\<close>, unary minus).\<close>

definition tensor_dim :: "tensor \<Rightarrow> nat" where
  "tensor_dim t = length (shape t)"

definition t_map :: "(real \<Rightarrow> real) \<Rightarrow> tensor \<Rightarrow> tensor" where
  "t_map f t = Tensor (shape t) (map f (vals t))"

text \<open>
  Underflow in float32: the smallest positive value is \<open>2\<^sup>-\<^sup>1\<^sup>4\<^sup>9\<close>, and a positive result of at
  most half of it is rounded to \<open>0.0\<close>. This happens to \<open>torch.exp\<close> on arguments below
  about \<open>-104\<close>.
\<close>

definition float32_underflow :: "real \<Rightarrow> real" where
  "float32_underflow r = (if r \<le> 1 / 2 ^ 150 then 0 else r)"

definition torch_exp :: "tensor \<Rightarrow> tensor" where
  "torch_exp t = t_map (\<lambda>v. float32_underflow (exp v)) t"

definition torch_sqrt :: "tensor \<Rightarrow> tensor" where
  "torch_sqrt t = t_map sqrt t"

definition torch_log :: "tensor \<Rightarrow> tensor" where
  "torch_log t = t_map ln t"

definition t_neg :: "tensor \<Rightarrow> tensor" where
  "t_neg t = t_map uminus t"

definition scalar_add :: "real \<Rightarrow> tensor \<Rightarrow> tensor" where
  "scalar_add c t = t_map (\<lambda>v. c + v) t"

text \<open>
  Multi-indices of a shape in row-major order, the flat position of a multi-index, and
  reading an entry. A read outside the stored entries gives 0; it does not occur on a
  well-formed tensor.
\<close>

fun indices :: "nat list \<Rightarrow> nat list list" where
  "indices [] = [[]]"
| "indices (n # ns) = concat (map (\<lambda>i. map ((#) i) (indices ns)) [0..<n])"

definition ravel :: "nat list \<Rightarrow> nat list \<Rightarrow> nat" where
  "ravel s idx = foldl (\<lambda>acc (n, i). acc * n + i) 0 (zip s idx)"

definition t_at :: "tensor \<Rightarrow> nat list \<Rightarrow> real" where
  "t_at t idx =
     (let k = ravel (shape t) idx in if k < length (vals t) then vals t ! k else 0)"

text \<open>
  Broadcasting: shapes are aligned at their last dimension; two sizes are compatible when
  they are equal or one of them is 1. An operand is read at a result index by dropping
  the leading positions it does not have and reading position 0 along its dimensions of
  size 1.
\<close>

fun broadcast_rev :: "nat list \<Rightarrow> nat list \<Rightarrow> nat list option" where
  "broadcast_rev [] ys = Some ys"
| "broadcast_rev xs [] = Some xs"
| "broadcast_rev (x # xs) (y # ys) =
     (if x = y \<or> y = 1 then map_option ((#) x) (broadcast_rev xs ys)
      else if x = 1 then map_option ((#) y) (broadcast_rev xs ys)
      else None)"

definition broadcast_shapes :: "nat list \<Rightarrow> nat list \<Rightarrow> nat list option" where
  "broadcast_shapes s1 s2 = map_option rev (broadcast_rev (rev s1) (rev s2))"

definition bidx :: "nat list \<Rightarrow> nat list \<Rightarrow> nat list" where
  "bidx s idx =
     map (\<lambda>(n, i). if n = 1 then 0 else i) (zip s (drop (length idx - length s) idx))"

definition t_atb :: "tensor \<Rightarrow> nat list \<Rightarrow> real" where
  "t_atb t idx = t_at t (bidx (shape t) idx)"

definition t_bin :: "(real \<Rightarrow> real \<Rightarrow> real) \<Rightarrow> tensor \<Rightarrow> tensor \<Rightarrow> error + tensor" where
  "t_bin f a b =
     (case broadcast_shapes (shape a) (shape b) of
        None \<Rightarrow> Inl RuntimeError
      | Some s \<Rightarrow> Inr (Tensor s (map (\<lambda>idx. f (t_atb a idx) (t_atb b idx)) (indices s))))"

definition t_add :: "tensor \<Rightarrow> tensor \<Rightarrow> error + tensor" where
  "t_add a b = t_bin (+) a b"

definition t_sub :: "tensor \<Rightarrow> tensor \<Rightarrow> error + tensor" where
  "t_sub a b = t_bin (-) a b"

definition t_mul :: "tensor \<Rightarrow> tensor \<Rightarrow> error + tensor" where
  "t_mul a b = t_bin (*) a b"

text \<open>
  Reductions along one dimension (\<open>t.sum(dim=d)\<close>, \<open>t.mean(dim=d)\<close>). A negative \<open>d\<close>
  counts from the last dimension; a \<open>d\<close> outside \<open>[-rank, rank)\<close> raises. A 0-dimensional
  tensor accepts \<open>d = 0\<close> and \<open>d = -1\<close> and is returned as it is.
\<close>

definition norm_dim :: "nat \<Rightarrow> int \<Rightarrow> error + nat" where
  "norm_dim r d =
     (if - int r \<le> d \<and> d < int r then Inr (nat (if d < 0 then d + int r else d))
      else Inl IndexError)"

definition reduce_dim :: "(real list \<Rightarrow> real) \<Rightarrow> tensor \<Rightarrow> int \<Rightarrow> error + tensor" where
  "reduce_dim f t d =
     (if shape t = [] then (if d = 0 \<or> d = -1 then Inr t else Inl IndexError)
      else bindE (norm_dim (length (shape t)) d) (\<lambda>k.
        let s = take k (shape t) @ drop (Suc k) (shape t) in
        Inr (Tensor s
          (map (\<lambda>idx. f (map (\<lambda>j. t_at t (take k idx @ [j] @ drop k idx)) [0..<shape t ! k]))
               (indices s)))))"

definition t_sum :: "tensor \<Rightarrow> int \<Rightarrow> error + tensor" where
  "t_sum t d = reduce_dim sum_list t d"

definition t_mean :: "tensor \<Rightarrow> int \<Rightarrow> error + tensor" where
  "t_mean t d = reduce_dim (\<lambda>xs. sum_list xs / real (length xs)) t d"

text \<open>\<open>torch.zeros((n,))\<close>, \<open>torch.ones((n,))\<close>, \<open>torch.eye(n)\<close>.\<close>

definition torch_zeros :: "nat \<Rightarrow> tensor" where
  "torch_zeros n = Tensor [n] (replicate n 0)"

definition torch_ones :: "nat \<Rightarrow> tensor" where
  "torch_ones n = Tensor [n] (replicate n 1)"

definition torch_eye :: "nat \<Rightarrow> tensor" where
  "torch_eye n =
     Tensor [n, n] (concat (map (\<lambda>i. map (\<lambda>j. if i = j then 1 else 0) [0..<n]) [0..<n]))"

text \<open>\<open>t.unsqueeze(0).expand([n] + list(t.size()))\<close>: \<open>n\<close> copies along a new first dimension.\<close>

definition expand0 :: "nat \<Rightarrow> tensor \<Rightarrow> tensor" where
  "expand0 n t = Tensor (n # shape t) (concat (replicate n (vals t)))"

text \<open>
  \<open>F.linear(input, weight)\<close> without bias: the last dimension of the input is
  contracted with the last dimension of the weight (\<open>input @ weight.T\<close>).
\<close>

definition rows_of :: "nat \<Rightarrow> nat \<Rightarrow> real list \<Rightarrow> real list list" where
  "rows_of n w xs = map (\<lambda>k. take w (drop (k * w) xs)) [0..<n]"

definition dot :: "real list \<Rightarrow> real list \<Rightarrow> real" where
  "dot xs ys = sum_list (map (\<lambda>(a, b). a * b) (zip xs ys))"

definition F_linear :: "tensor \<Rightarrow> tensor \<Rightarrow> error + tensor" where
  "F_linear inp weight =
     (case shape weight of
        [n_out, n_in] \<Rightarrow>
          if shape inp \<noteq> [] \<and> last (shape inp) = n_in then
            Inr (Tensor (butlast (shape inp) @ [n_out])
              (concat (map (\<lambda>r. map (dot r) (rows_of n_out n_in (vals weight)))
                           (rows_of (prod_list (butlast (shape inp))) n_in (vals inp)))))
          else Inl RuntimeError
      | [n_in] \<Rightarrow>
          if shape inp \<noteq> [] \<and> last (shape inp) = n_in then
            Inr (Tensor (butlast (shape inp))
              (map (\<lambda>r. dot r (vals weight))
                   (rows_of (prod_list (butlast (shape inp))) n_in (vals inp))))
          else Inl RuntimeError
      | _ \<Rightarrow> Inl RuntimeError)"

section \<open>Distributions\<close>

text \<open>
  The distribution objects of \<open>torch.distributions\<close> that the models build or receive
  from their encoders. A \<open>Normal\<close> is elementwise; a \<open>MultivariateNormal\<close> has the last
  dimension of its location as event dimension and a covariance matrix per batch entry.
\<close>

datatype distribution =
    Normal tensor tensor
  | MultivariateNormal tensor tensor
  | Poisson tensor

text \<open>
  What the models import and this development does not define: the log-likelihoods of
  the count distributions and the one-hot encoding (modules of the package that are
  used through their call contract), and three scalar functions of the numerical
  library (log-gamma, the log-density of a multivariate normal at a point, the KL
  divergence of two multivariate normals).
\<close>

record extern =
  log_zinb_positive :: "tensor \<Rightarrow> tensor \<Rightarrow> tensor \<Rightarrow> tensor \<Rightarrow> tensor"
  log_nb_positive :: "tensor \<Rightarrow> tensor \<Rightarrow> tensor \<Rightarrow> tensor"
  one_hot :: "tensor option \<Rightarrow> nat \<Rightarrow> error + tensor"
  lgamma :: "real \<Rightarrow> real"
  mvn_logpdf :: "real list \<Rightarrow> real list \<Rightarrow> real list list \<Rightarrow> real"
  mvn_kl :: "real list \<Rightarrow> real list list \<Rightarrow> real list \<Rightarrow> real list list \<Rightarrow> real"

definition expand_to :: "nat list \<Rightarrow> tensor \<Rightarrow> tensor" where
  "expand_to s t = Tensor s (map (t_atb t) (indices s))"

text \<open>\<open>Normal(loc, scale)\<close>: both arguments are broadcast to a common shape.\<close>

definition mk_Normal :: "tensor \<Rightarrow> tensor \<Rightarrow> error + distribution" where
  "mk_Normal loc scale =
     (case broadcast_shapes (shape loc) (shape scale) of
        None \<Rightarrow> Inl RuntimeError
      | Some s \<Rightarrow> Inr (Normal (expand_to s loc) (expand_to s scale)))"

text \<open>The event vector and the covariance matrix of a batch entry \<open>b\<close>.\<close>

definition vec_at :: "tensor \<Rightarrow> nat list \<Rightarrow> real list" where
  "vec_at t b = map (\<lambda>j. t_atb t (b @ [j])) [0..<last (shape t)]"

definition mat_at :: "tensor \<Rightarrow> nat list \<Rightarrow> real list list" where
  "mat_at t b =
     map (\<lambda>i. map (\<lambda>j. t_atb t (b @ [i, j])) [0..<last (shape t)])
         [0..<last (butlast (shape t))]"

definition mvn_batch_shape :: "tensor \<Rightarrow> tensor \<Rightarrow> nat list option" where
  "mvn_batch_shape loc cov =
     broadcast_shapes (butlast (shape loc)) (butlast (butlast (shape cov)))"

text \<open>
  \<open>d.log_prob(value)\<close>. For a \<open>Normal\<close> and a \<open>Poisson\<close> the result has the broadcast
  shape of the value and the parameters; for a \<open>MultivariateNormal\<close> the event dimension
  is consumed and the result has the batch shape.
\<close>

definition normal_logpdf :: "real \<Rightarrow> real \<Rightarrow> real \<Rightarrow> real" where
  "normal_logpdf loc scale v =
     - ((v - loc)\<^sup>2) / (2 * scale\<^sup>2) - ln scale - ln (sqrt (2 * pi))"

definition log_prob :: "extern \<Rightarrow> distribution \<Rightarrow> tensor \<Rightarrow> error + tensor" where
  "log_prob T d v =
     (case d of
        Normal loc scale \<Rightarrow>
          (case broadcast_shapes (shape loc) (shape v) of
             None \<Rightarrow> Inl RuntimeError
           | Some s \<Rightarrow>
               Inr (Tensor s (map (\<lambda>idx. normal_logpdf (t_atb loc idx) (t_atb scale idx)
                                            (t_atb v idx)) (indices s))))
      | Poisson rate \<Rightarrow>
          (case broadcast_shapes (shape rate) (shape v) of
             None \<Rightarrow> Inl RuntimeError
           | Some s \<Rightarrow>
               Inr (Tensor s (map (\<lambda>idx. ln (t_atb rate idx) * t_atb v idx - t_atb rate idx
                                            - lgamma T (t_atb v idx + 1)) (indices s))))
      | MultivariateNormal loc cov \<Rightarrow>
          (if shape loc = [] \<or> shape v = [] then Inl ValueError
           else case mvn_batch_shape loc cov of
             None \<Rightarrow> Inl RuntimeError
           | Some bs \<Rightarrow>
               (case broadcast_shapes (shape v) (bs @ [last (shape loc)]) of
                  None \<Rightarrow> Inl RuntimeError
                | Some s \<Rightarrow>
                    Inr (Tensor (butlast s)
                      (map (\<lambda>b. mvn_logpdf T (vec_at (expand_to s v) b) (vec_at loc b)
                                   (mat_at cov b))
                           (indices (butlast s)))))))"

text \<open>
  \<open>kl_divergence(p, q)\<close>: registered for two \<open>Normal\<close>s (elementwise, on the broadcast
  shape) and for two \<open>MultivariateNormal\<close>s (one value per batch entry); a pair of
  distributions without a registered formula raises.
\<close>

definition normal_kl :: "real \<Rightarrow> real \<Rightarrow> real \<Rightarrow> real \<Rightarrow> real" where
  "normal_kl p_loc p_scale q_loc q_scale =
     (let var_ratio = (p_scale / q_scale)\<^sup>2;
          t1 = ((p_loc - q_loc) / q_scale)\<^sup>2
      in 0.5 * (var_ratio + t1 - 1 - ln var_ratio))"

definition kl :: "extern \<Rightarrow> distribution \<Rightarrow> distribution \<Rightarrow> error + tensor" where
  "kl T p q =
     (case (p, q) of
        (Normal p_loc p_scale, Normal q_loc q_scale) \<Rightarrow>
          (case broadcast_shapes (shape p_loc) (shape q_loc) of
             None \<Rightarrow> Inl RuntimeError
           | Some s \<Rightarrow>
               Inr (Tensor s (map (\<lambda>idx. normal_kl (t_atb p_loc idx) (t_atb p_scale idx)
                                            (t_atb q_loc idx) (t_atb q_scale idx))
                                  (indices s))))
      | (MultivariateNormal p_loc p_cov, MultivariateNormal q_loc q_cov) \<Rightarrow>
          (if shape p_loc = [] \<or> shape q_loc = [] \<or> last (shape p_loc) \<noteq> last (shape q_loc)
           then Inl ValueError
           else case (mvn_batch_shape p_loc p_cov, mvn_batch_shape q_loc q_cov) of
             (Some bp, Some bq) \<Rightarrow>
               (case broadcast_shapes bp bq of
                  None \<Rightarrow> Inl RuntimeError
                | Some s \<Rightarrow>
                    Inr (Tensor s
                      (map (\<lambda>b. mvn_kl T (vec_at p_loc b) (mat_at p_cov b)
                                   (vec_at q_loc b) (mat_at q_cov b))
                           (indices s))))
           | _ \<Rightarrow> Inl RuntimeError)
      | _ \<Rightarrow> Inl NotImplementedError)"

section \<open>The random number generator and the networks\<close>

text \<open>
  The global generator of the numerical library is a piece of state that every sampling
  step reads and advances. \<open>torch.manual_seed(n)\<close> replaces it by the state that the
  seed \<open>n\<close> determines.
\<close>

datatype rng = Rng (seed: nat) (drawn: nat)

definition manual_seed :: "nat \<Rightarrow> rng" where
  "manual_seed n = Rng n 0"

text \<open>
  The encoder and decoder networks are defined in another module of the package; the
  models use them through their calls only. An encoder is called on the transformed
  counts and a list of categorical covariates and returns the posterior mean, the
  posterior variance and a sample; \<open>sample\<close> draws again from given moments; \<open>distrib\<close>
  builds the distribution object of given moments. A decoder maps the dispersion mode,
  the latent sample, the library size and the covariates to the scale, the dispersion,
  the rate and the dropout of the count distribution. Every call may draw from the
  generator.
\<close>

record Encoder =
  enc_forward :: "tensor \<Rightarrow> tensor option list \<Rightarrow> rng \<Rightarrow> (tensor \<times> tensor \<times> tensor) \<times> rng"
  enc_sample :: "tensor \<Rightarrow> tensor \<Rightarrow> rng \<Rightarrow> tensor \<times> rng"
  enc_distrib :: "tensor \<Rightarrow> tensor \<Rightarrow> error + distribution"

record DecoderSCVI =
  dec_forward :: "string \<Rightarrow> tensor \<Rightarrow> tensor \<Rightarrow> tensor option list \<Rightarrow> rng
                    \<Rightarrow> (tensor \<times> tensor \<times> tensor \<times> tensor) \<times> rng"

text \<open>
  A linear layer \<open>nn.Linear(n_in, n_out)\<close> owns a weight of shape \<open>(n_out, n_in)\<close> and a
  bias of shape \<open>(n_out)\<close>, and maps an input to \<open>F.linear(input, weight) + bias\<close>.
\<close>

record Linear =
  weight :: tensor
  bias :: tensor

definition Linear_forward :: "Linear \<Rightarrow> tensor \<Rightarrow> error + tensor" where
  "Linear_forward L inp = bindE (F_linear inp (weight L)) (\<lambda>h. t_add h (bias L))"








section \<open>The model \<open>VAE\<close>\<close>

record 'd VAE =
  dispersion :: string
  n_latent :: nat
  log_variational :: bool
  reconstruction_loss :: string
  n_batch :: nat
  n_labels :: nat
  px_r :: "tensor option"
  z_full_cov :: bool
  z_encoder :: Encoder
  l_encoder :: Encoder
  decoder :: "'d DecoderSCVI_scheme"

text \<open>The ten values that \<open>inference\<close> returns, in the order of the source.\<close>

record outputs =
  out_px_scale :: tensor
  out_px_r :: tensor
  out_px_rate :: tensor
  out_px_dropout :: tensor
  out_qz_m :: tensor
  out_qz_v :: tensor
  out_z :: tensor
  out_ql_m :: tensor
  out_ql_v :: tensor
  out_library :: tensor

text \<open>
  \<open>self.px_r\<close>: the attribute is created by the constructor for the modes \<open>gene\<close>,
  \<open>gene-batch\<close> and \<open>gene-label\<close> only; reading it where it was not created raises.
\<close>

definition self_px_r :: "('d, 'a) VAE_scheme \<Rightarrow> error + tensor" where
  "self_px_r M = (case px_r M of None \<Rightarrow> Inl AttributeError | Some w \<Rightarrow> Inr w)"

text \<open>
  \<open>_reconstruction_loss\<close>: the local variable \<open>reconst_loss\<close> is assigned in the two
  branches of the \<open>if\<close>/\<open>elif\<close> only; returning it unassigned raises.
\<close>

definition VAE_reconstruction_loss ::
  "extern \<Rightarrow> ('d, 'a) VAE_scheme \<Rightarrow> tensor \<Rightarrow> tensor \<Rightarrow> tensor \<Rightarrow> tensor \<Rightarrow> error + tensor" where
  "VAE_reconstruction_loss T M x px_rate px_r' px_dropout =
     (if reconstruction_loss M = ''zinb'' then
        Inr (t_neg (log_zinb_positive T x px_rate px_r' px_dropout))
      else if reconstruction_loss M = ''nb'' then
        Inr (t_neg (log_nb_positive T x px_rate px_r'))
      else Inl UnboundLocalError)"

text \<open>
  The first part of \<open>inference\<close>, which the three models share word for word: the
  optional \<open>log(1 + x)\<close>, the two encoder calls, and for \<open>n_samples > 1\<close> the assertion
  and the repeated sampling. The result is \<open>(qz_m, qz_v, z, ql_m, ql_v, library)\<close>.
\<close>

definition log_transform :: "bool \<Rightarrow> tensor \<Rightarrow> tensor" where
  "log_transform log_var x = (if log_var then torch_log (scalar_add 1 x) else x)"

definition encode ::
  "bool \<Rightarrow> bool \<Rightarrow> Encoder \<Rightarrow> Encoder \<Rightarrow> tensor \<Rightarrow> tensor option \<Rightarrow> int \<Rightarrow> rng
     \<Rightarrow> (error + tensor \<times> tensor \<times> tensor \<times> tensor \<times> tensor \<times> tensor) \<times> rng" where
  "encode log_var full_cov z_enc l_enc x y n_samples g0 =
     (let x' = log_transform log_var x;
          ((qz_m, qz_v, z), g1) = enc_forward z_enc x' [y] g0;
          ((ql_m, ql_v, library), g2) = enc_forward l_enc x' [] g1
      in if n_samples > 1 then
           if full_cov then (Inl AssertionError, g2)
           else
             let n = nat n_samples;
                 qz_m' = expand0 n qz_m;
                 qz_v' = expand0 n qz_v;
                 ql_m' = expand0 n ql_m;
                 ql_v' = expand0 n ql_v;
                 (z', g3) = enc_sample z_enc qz_m' qz_v' g2;
                 (library', g4) = enc_sample l_enc ql_m' ql_v' g3
             in (Inr (qz_m', qz_v', z', ql_m', ql_v', library'), g4)
         else (Inr (qz_m, qz_v, z, ql_m, ql_v, library), g2))"

text \<open>
  The dispersion before the exponential: by mode, a linear combination of the columns of
  \<open>self.px_r\<close> selected by the label or by the batch, \<open>self.px_r\<close> itself, or (any other
  mode) the value that the decoder returned.
\<close>

definition resolve_px_r ::
  "extern \<Rightarrow> ('d, 'a) VAE_scheme \<Rightarrow> tensor \<Rightarrow> tensor option \<Rightarrow> tensor option \<Rightarrow> error + tensor" where
  "resolve_px_r T M px_r_decoder batch_index y =
     (if dispersion M = ''gene-label'' then
        bindE (one_hot T y (n_labels M)) (\<lambda>oh. bindE (self_px_r M) (\<lambda>w. F_linear oh w))
      else if dispersion M = ''gene-batch'' then
        bindE (one_hot T batch_index (n_batch M)) (\<lambda>oh. bindE (self_px_r M) (\<lambda>w. F_linear oh w))
      else if dispersion M = ''gene'' then self_px_r M
      else Inr px_r_decoder)"

definition VAE_inference ::
  "extern \<Rightarrow> ('d, 'a) VAE_scheme \<Rightarrow> tensor \<Rightarrow> tensor option \<Rightarrow> tensor option \<Rightarrow> int \<Rightarrow> rng
     \<Rightarrow> (error + outputs) \<times> rng" where
  "VAE_inference T M x batch_index y n_samples g0 =
     (case encode (log_variational M) (z_full_cov M) (z_encoder M) (l_encoder M) x y n_samples g0 of
        (Inl e, g) \<Rightarrow> (Inl e, g)
      | (Inr (qz_m, qz_v, z, ql_m, ql_v, library), g) \<Rightarrow>
          (let ((px_scale, px_r_decoder, px_rate, px_dropout), g') =
                 dec_forward (decoder M) (dispersion M) z library [batch_index, y] g
           in (bindE (resolve_px_r T M px_r_decoder batch_index y) (\<lambda>r.
                 Inr \<lparr>out_px_scale = px_scale, out_px_r = torch_exp r, out_px_rate = px_rate,
                      out_px_dropout = px_dropout, out_qz_m = qz_m, out_qz_v = qz_v, out_z = z,
                      out_ql_m = ql_m, out_ql_v = ql_v, out_library = library\<rparr>), g')))"

definition VAE_get_prior_params :: "('d, 'a) VAE_scheme \<Rightarrow> tensor \<times> tensor" where
  "VAE_get_prior_params M =
     (torch_zeros (n_latent M),
      if z_full_cov M then torch_eye (n_latent M) else torch_ones (n_latent M))"

text \<open>
  \<open>forward\<close> after its call of \<open>inference\<close>: the two KL divergences, the reconstruction
  loss, and the pair that is returned.
\<close>

definition forward_losses ::
  "extern \<Rightarrow> ('d, 'a) VAE_scheme \<Rightarrow> tensor \<Rightarrow> tensor \<Rightarrow> tensor \<Rightarrow> outputs \<Rightarrow> error + tensor \<times> tensor" where
  "forward_losses T M x local_l_mean local_l_var out =
     (let (mean, scale) = VAE_get_prior_params M in
      bindE (enc_distrib (z_encoder M) (out_qz_m out) (out_qz_v out)) (\<lambda>qz.
      bindE (enc_distrib (z_encoder M) mean scale) (\<lambda>pz.
      bindE (kl T qz pz) (\<lambda>kl_z.
      bindE (if length (shape kl_z) = 2 then t_sum kl_z 1 else Inr kl_z) (\<lambda>kl_divergence_z.
      bindE (mk_Normal (out_ql_m out) (torch_sqrt (out_ql_v out))) (\<lambda>ql.
      bindE (mk_Normal local_l_mean (torch_sqrt local_l_var)) (\<lambda>pl.
      bindE (kl T ql pl) (\<lambda>kl_l.
      bindE (t_sum kl_l 1) (\<lambda>kl_divergence_l.
      bindE (VAE_reconstruction_loss T M x (out_px_rate out) (out_px_r out) (out_px_dropout out))
        (\<lambda>reconst_loss.
      bindE (t_add reconst_loss kl_divergence_l) (\<lambda>loss.
      Inr (loss, kl_divergence_z))))))))))))"

definition VAE_forward ::
  "extern \<Rightarrow> ('d, 'a) VAE_scheme \<Rightarrow> tensor \<Rightarrow> tensor \<Rightarrow> tensor \<Rightarrow> tensor option \<Rightarrow> tensor option
     \<Rightarrow> rng \<Rightarrow> (error + tensor \<times> tensor) \<times> rng" where
  "VAE_forward T M x local_l_mean local_l_var batch_index y g0 =
     (case VAE_inference T M x batch_index y 1 g0 of
        (Inl e, g) \<Rightarrow> (Inl e, g)
      | (Inr out, g) \<Rightarrow> (forward_losses T M x local_l_mean local_l_var out, g))"

text \<open>
  \<open>ratio_loss\<close> after its call of \<open>inference\<close>: the five log terms, the assertion that
  their shapes agree, and the negated mean of the log ratio.
\<close>

definition ratio_terms ::
  "extern \<Rightarrow> ('d, 'a) VAE_scheme \<Rightarrow> tensor \<Rightarrow> tensor \<Rightarrow> tensor \<Rightarrow> outputs
     \<Rightarrow> error + tensor \<times> tensor \<times> tensor \<times> tensor \<times> tensor" where
  "ratio_terms T M x local_l_mean local_l_var out =
     (let (z_prior_m, z_prior_v) = VAE_get_prior_params M in
      bindE (VAE_reconstruction_loss T M x (out_px_rate out) (out_px_r out) (out_px_dropout out))
        (\<lambda>reconst_loss.
      let log_px_zl = t_neg reconst_loss in
      bindE (mk_Normal local_l_mean (torch_sqrt local_l_var)) (\<lambda>pl.
      bindE (log_prob T pl (out_library out)) (\<lambda>lp_l.
      bindE (t_sum lp_l (-1)) (\<lambda>log_pl.
      bindE (enc_distrib (z_encoder M) z_prior_m z_prior_v) (\<lambda>pz.
      bindE (log_prob T pz (out_z out)) (\<lambda>lp_z.
      bindE (t_sum lp_z (-1)) (\<lambda>log_pz.
      bindE (enc_distrib (z_encoder M) (out_qz_m out) (out_qz_v out)) (\<lambda>qz.
      bindE (log_prob T qz (out_z out)) (\<lambda>lq_z.
      bindE (t_sum lq_z (-1)) (\<lambda>log_qz_x.
      bindE (if tensor_dim log_pz = 2 \<and> tensor_dim log_qz_x = 2 then
               bindE (t_sum log_pz 1) (\<lambda>a. bindE (t_sum log_qz_x 1) (\<lambda>b. Inr (a, b)))
             else Inr (log_pz, log_qz_x)) (\<lambda>(log_pz, log_qz_x).
      bindE (mk_Normal (out_ql_m out) (torch_sqrt (out_ql_v out))) (\<lambda>ql.
      bindE (log_prob T ql (out_library out)) (\<lambda>lq_l.
      bindE (t_sum lq_l (-1)) (\<lambda>log_ql_x.
      Inr (log_px_zl, log_pl, log_pz, log_qz_x, log_ql_x))))))))))))))))"

definition shapes_agree :: "tensor \<times> tensor \<times> tensor \<times> tensor \<times> tensor \<Rightarrow> bool" where
  "shapes_agree ts =
     (case ts of (log_px_zl, log_pl, log_pz, log_qz_x, log_ql_x) \<Rightarrow>
        shape log_px_zl = shape log_pl \<and> shape log_pl = shape log_pz
        \<and> shape log_pz = shape log_qz_x \<and> shape log_qz_x = shape log_ql_x)"

definition ratio_combine ::
  "tensor \<times> tensor \<times> tensor \<times> tensor \<times> tensor \<Rightarrow> error + tensor" where
  "ratio_combine ts =
     (case ts of (log_px_zl, log_pl, log_pz, log_qz_x, log_ql_x) \<Rightarrow>
        if shapes_agree ts then
          bindE (t_add log_px_zl log_pz) (\<lambda>s1.
          bindE (t_add s1 log_pl) (\<lambda>s2.
          bindE (t_sub s2 log_qz_x) (\<lambda>s3.
          bindE (t_sub s3 log_ql_x) (\<lambda>log_ratio.
          bindE (t_mean log_ratio 0) (\<lambda>m. Inr (t_neg m))))))
        else Inl AssertionError)"

definition VAE_ratio_loss ::
  "extern \<Rightarrow> ('d, 'a) VAE_scheme \<Rightarrow> tensor \<Rightarrow> tensor \<Rightarrow> tensor \<Rightarrow> tensor option \<Rightarrow> tensor option
     \<Rightarrow> rng \<Rightarrow> (error + tensor) \<times> rng" where
  "VAE_ratio_loss T M x local_l_mean local_l_var batch_index y g0 =
     (case VAE_inference T M x batch_index y 1 g0 of
        (Inl e, g) \<Rightarrow> (Inl e, g)
      | (Inr out, g) \<Rightarrow>
          (bindE (ratio_terms T M x local_l_mean local_l_var out) ratio_combine, g))"

section \<open>The model \<open>LDVAE\<close>\<close>



section \<open>The model \<open>MeanVarianceVAE\<close>\<close>

text \<open>
  The dispersion network \<open>px_r_net\<close> is \<open>Sequential(Linear(1, n_r_hidden), ReLU(),
  Linear(n_r_hidden, 1))\<close>.
\<close>

definition torch_relu :: "tensor \<Rightarrow> tensor" where
  "torch_relu t = t_map (max 0) t"

record 'd MeanVarianceVAE = "'d VAE" +
  px_r_net :: "Linear \<times> Linear"

definition px_r_net_forward :: "Linear \<times> Linear \<Rightarrow> tensor \<Rightarrow> error + tensor" where
  "px_r_net_forward net inp =
     bindE (Linear_forward (fst net) inp) (\<lambda>h. Linear_forward (snd net) (torch_relu h))"

text \<open>\<open>t.view(-1, 1)\<close> and \<open>t.view(size)\<close>.\<close>

definition view_column :: "tensor \<Rightarrow> tensor" where
  "view_column t = Tensor [prod_list (shape t), 1] (vals t)"

definition view_as :: "nat list \<Rightarrow> tensor \<Rightarrow> error + tensor" where
  "view_as s t =
     (if prod_list s = prod_list (shape t) then Inr (Tensor s (vals t)) else Inl RuntimeError)"

definition MeanVarianceVAE_inference ::
  "extern \<Rightarrow> ('d, 'a) MeanVarianceVAE_scheme \<Rightarrow> tensor \<Rightarrow> tensor option \<Rightarrow> tensor option \<Rightarrow> int
     \<Rightarrow> rng \<Rightarrow> (error + outputs) \<times> rng" where
  "MeanVarianceVAE_inference T M x batch_index y n_samples g0 =
     (case encode (log_variational M) (z_full_cov M) (z_encoder M) (l_encoder M) x y n_samples g0 of
        (Inl e, g) \<Rightarrow> (Inl e, g)
      | (Inr (qz_m, qz_v, z, ql_m, ql_v, library), g) \<Rightarrow>
          (let ((px_scale, px_r_decoder, px_rate, px_dropout), g') =
                 dec_forward (decoder M) (dispersion M) z library [batch_index, y] g
           in (bindE (t_mul px_scale library) (\<lambda>nb_mean.
               bindE (px_r_net_forward (px_r_net M) (view_column nb_mean)) (\<lambda>r.
               bindE (view_as (shape nb_mean) r) (\<lambda>r'.
               if shape r' = shape px_scale then
                 Inr \<lparr>out_px_scale = px_scale, out_px_r = torch_exp r', out_px_rate = px_rate,
                      out_px_dropout = px_dropout, out_qz_m = qz_m, out_qz_v = qz_v, out_z = z,
                      out_ql_m = ql_m, out_ql_v = ql_v, out_library = library\<rparr>
               else Inl AssertionError))), g')))"

section \<open>The model \<open>LogNormalPoissonVAE\<close>\<close>

record LogNormalPoissonVAE =
  lnp_n_latent :: nat
  lnp_log_variational :: bool
  lnp_n_batch :: nat
  lnp_n_labels :: nat
  lnp_z_full_cov :: bool
  lnp_z_autoregressive :: bool
  lnp_z_encoder :: Encoder
  lnp_l_encoder :: Encoder
  lnp_decoder :: "tensor \<Rightarrow> tensor \<Rightarrow> tensor option list \<Rightarrow> rng \<Rightarrow> tensor \<times> rng"

text \<open>
  The four methods that are not implemented. Each takes the model and the generator and
  returns them with the error it raises.
\<close>

definition LogNormalPoissonVAE_get_sample_scale ::
  "LogNormalPoissonVAE \<Rightarrow> tensor \<Rightarrow> tensor option \<Rightarrow> tensor option \<Rightarrow> int \<Rightarrow> rng
     \<Rightarrow> (error + tensor) \<times> LogNormalPoissonVAE \<times> rng" where
  "LogNormalPoissonVAE_get_sample_scale M x batch_index y n_samples g =
     (Inl NotImplementedError, M, g)"

definition LogNormalPoissonVAE_get_sample_rate ::
  "LogNormalPoissonVAE \<Rightarrow> tensor \<Rightarrow> tensor option \<Rightarrow> tensor option \<Rightarrow> int \<Rightarrow> rng
     \<Rightarrow> (error + tensor) \<times> LogNormalPoissonVAE \<times> rng" where
  "LogNormalPoissonVAE_get_sample_rate M x batch_index y n_samples g =
     (Inl NotImplementedError, M, g)"

definition LogNormalPoissonVAE_get_log_ratio ::
  "LogNormalPoissonVAE \<Rightarrow> tensor \<Rightarrow> tensor option \<Rightarrow> tensor option \<Rightarrow> int \<Rightarrow> rng
     \<Rightarrow> (error + tensor) \<times> LogNormalPoissonVAE \<times> rng" where
  "LogNormalPoissonVAE_get_log_ratio M x batch_index y n_samples g =
     (Inl NotImplementedError, M, g)"

definition LogNormalPoissonVAE_scale_from_z ::
  "LogNormalPoissonVAE \<Rightarrow> tensor \<Rightarrow> tensor \<Rightarrow> rng
     \<Rightarrow> (error + tensor) \<times> LogNormalPoissonVAE \<times> rng" where
  "LogNormalPoissonVAE_scale_from_z M sample_batch fixed_batch g =
     (Inl NotImplementedError, M, g)"

definition LogNormalPoissonVAE_reconstruction_loss ::
  "extern \<Rightarrow> tensor \<Rightarrow> tensor \<Rightarrow> error + tensor" where
  "LogNormalPoissonVAE_reconstruction_loss T x rate =
     bindE (log_prob T (Poisson rate) x) (\<lambda>lp.
       let rl = t_neg lp in
       if tensor_dim rl = 2 then t_sum rl (-1) else Inl AssertionError)"

definition LogNormalPoissonVAE_inference ::
  "LogNormalPoissonVAE \<Rightarrow> tensor \<Rightarrow> tensor option \<Rightarrow> tensor option \<Rightarrow> int \<Rightarrow> rng
     \<Rightarrow> (error + tensor \<times> tensor \<times> tensor \<times> tensor \<times> tensor \<times> tensor \<times> tensor) \<times> rng" where
  "LogNormalPoissonVAE_inference M x batch_index y n_samples g0 =
     (case encode (lnp_log_variational M) (lnp_z_full_cov M) (lnp_z_encoder M) (lnp_l_encoder M)
             x y n_samples g0 of
        (Inl e, g) \<Rightarrow> (Inl e, g)
      | (Inr (qz_m, qz_v, z, ql_m, ql_v, library), g) \<Rightarrow>
          (let (px_rate, g') = lnp_decoder M z library [batch_index, y] g
           in (Inr (px_rate, qz_m, qz_v, z, ql_m, ql_v, library), g')))"

definition LogNormalPoissonVAE_get_prior_params :: "LogNormalPoissonVAE \<Rightarrow> tensor \<times> tensor" where
  "LogNormalPoissonVAE_get_prior_params M =
     (torch_zeros (lnp_n_latent M),
      if lnp_z_full_cov M \<or> lnp_z_autoregressive M then torch_eye (lnp_n_latent M)
      else torch_ones (lnp_n_latent M))"

definition lnp_forward_losses ::
  "extern \<Rightarrow> LogNormalPoissonVAE \<Rightarrow> tensor \<Rightarrow> tensor \<Rightarrow> tensor
     \<Rightarrow> tensor \<times> tensor \<times> tensor \<times> tensor \<times> tensor \<times> tensor \<times> tensor \<Rightarrow> error + tensor \<times> tensor" where
  "lnp_forward_losses T M x local_l_mean local_l_var out =
     (case out of (px_rate, qz_m, qz_v, z, ql_m, ql_v, library) \<Rightarrow>
      let (mean, scale) = LogNormalPoissonVAE_get_prior_params M in
      bindE (enc_distrib (lnp_z_encoder M) qz_m qz_v) (\<lambda>qz.
      bindE (enc_distrib (lnp_z_encoder M) mean scale) (\<lambda>pz.
      bindE (kl T qz pz) (\<lambda>kl_z.
      bindE (if length (shape kl_z) = 2 then t_sum kl_z 1 else Inr kl_z) (\<lambda>kl_divergence_z.
      bindE (mk_Normal ql_m (torch_sqrt ql_v)) (\<lambda>ql.
      bindE (mk_Normal local_l_mean (torch_sqrt local_l_var)) (\<lambda>pl.
      bindE (kl T ql pl) (\<lambda>kl_l.
      bindE (t_sum kl_l 1) (\<lambda>kl_divergence_l.
      bindE (LogNormalPoissonVAE_reconstruction_loss T x px_rate) (\<lambda>reconst_loss.
      bindE (t_add reconst_loss kl_divergence_l) (\<lambda>loss.
      Inr (loss, kl_divergence_z))))))))))))"

text \<open>\<open>forward\<close> first reseeds the global generator with 42.\<close>

definition LogNormalPoissonVAE_forward ::
  "extern \<Rightarrow> LogNormalPoissonVAE \<Rightarrow> tensor \<Rightarrow> tensor \<Rightarrow> tensor \<Rightarrow> tensor option \<Rightarrow> tensor option
     \<Rightarrow> rng \<Rightarrow> (error + tensor \<times> tensor) \<times> rng" where
  "LogNormalPoissonVAE_forward T M x local_l_mean local_l_var batch_index y g0 =
     (let g1 = manual_seed 42 in
      case LogNormalPoissonVAE_inference M x batch_index y 1 g1 of
        (Inl e, g) \<Rightarrow> (Inl e, g)
      | (Inr out, g) \<Rightarrow> (lnp_forward_losses T M x local_l_mean local_l_var out, g))"

section \<open>Shapes of a batch\<close>

text \<open>
  The shapes of the latent posterior \<open>qz\<close> and prior \<open>pz\<close> of a batch of \<open>b\<close> cells in
  \<open>n\<close> latent dimensions, for the two kinds of distribution that an encoder builds:
  elementwise normals with moments of shape \<open>(b, n)\<close> and \<open>(n)\<close>, or multivariate normals
  with locations of shape \<open>(b, n)\<close> and \<open>(n)\<close> and covariances of shape \<open>(b, n, n)\<close> and
  \<open>(n, n)\<close>.
\<close>

definition latent_shapes :: "nat \<Rightarrow> nat \<Rightarrow> distribution \<Rightarrow> distribution \<Rightarrow> bool" where
  "latent_shapes b n qz pz =
     (case (qz, pz) of
        (Normal q_loc q_scale, Normal p_loc p_scale) \<Rightarrow>
          shape q_loc = [b, n] \<and> shape p_loc = [n]
      | (MultivariateNormal q_loc q_cov, MultivariateNormal p_loc p_cov) \<Rightarrow>
          shape q_loc = [b, n] \<and> shape q_cov = [b, n, n]
          \<and> shape p_loc = [n] \<and> shape p_cov = [n, n]
      | _ \<Rightarrow> False)"

section \<open>Example models\<close>

text \<open>
  Small concrete collaborators and models, on which the theorems below are instantiated:
  one cell, one gene, a latent space of dimension 1. The likelihoods reduce the gene
  dimension; the encoders return a zero mean, a unit variance (a unit covariance matrix
  for the full-covariance encoder) and a zero sample, and advance the generator by the
  number of entries they draw.
\<close>

definition ex_extern :: extern where
  "ex_extern =
     \<lparr>log_zinb_positive =
        (\<lambda>x r p d. Tensor (butlast (shape x)) (replicate (prod_list (butlast (shape x))) 0)),
      log_nb_positive =
        (\<lambda>x r p. Tensor (butlast (shape x)) (replicate (prod_list (butlast (shape x))) 0)),
      one_hot =
        (\<lambda>i n. case i of
            None \<Rightarrow> Inl AttributeError
          | Some t \<Rightarrow>
              Inr (Tensor [hd (shape t), n]
                (concat (map (\<lambda>v. map (\<lambda>j. if real j = v then 1 else 0) [0..<n]) (vals t))))),
      lgamma = (\<lambda>v. 0),
      mvn_logpdf = (\<lambda>v loc cov. 0),
      mvn_kl = (\<lambda>p_loc p_cov q_loc q_cov. 0)\<rparr>"

definition ex_encoder :: "nat \<Rightarrow> Encoder" where
  "ex_encoder n =
     \<lparr>enc_forward =
        (\<lambda>x cats g.
           let b = hd (shape x) in
           ((Tensor [b, n] (replicate (b * n) 0), Tensor [b, n] (replicate (b * n) 1),
             Tensor [b, n] (replicate (b * n) 0)),
            Rng (seed g) (drawn g + b * n))),
      enc_sample = (\<lambda>m v g. (m, Rng (seed g) (drawn g + prod_list (shape m)))),
      enc_distrib = (\<lambda>m v. mk_Normal m (torch_sqrt v))\<rparr>"

definition ex_encoder_full :: "nat \<Rightarrow> Encoder" where
  "ex_encoder_full n =
     \<lparr>enc_forward =
        (\<lambda>x cats g.
           let b = hd (shape x) in
           ((Tensor [b, n] (replicate (b * n) 0),
             Tensor [b, n, n] (concat (replicate b (vals (torch_eye n)))),
             Tensor [b, n] (replicate (b * n) 0)),
            Rng (seed g) (drawn g + b * n))),
      enc_sample = (\<lambda>m v g. (m, Rng (seed g) (drawn g + prod_list (shape m)))),
      enc_distrib = (\<lambda>m v. Inr (MultivariateNormal m v))\<rparr>"

definition ex_decoder :: "nat \<Rightarrow> DecoderSCVI" where
  "ex_decoder n_input =
     \<lparr>dec_forward =
        (\<lambda>disp z library cats g.
           let t = Tensor (butlast (shape z) @ [n_input])
                     (replicate (prod_list (butlast (shape z)) * n_input) 0)
           in ((t, t, t, t), g))\<rparr>"

text \<open>
  A \<open>VAE\<close> of one gene, one batch, one label and one latent dimension, with the
  dispersion parameter that the constructor creates for the mode.
\<close>

definition ex_vae :: "string \<Rightarrow> string \<Rightarrow> bool \<Rightarrow> unit VAE" where
  "ex_vae disp rl full_cov =
     \<lparr>dispersion = disp, n_latent = 1, log_variational = True, reconstruction_loss = rl,
      n_batch = 1, n_labels = 1,
      px_r = (if disp = ''gene'' then Some (Tensor [1] [0])
              else if disp = ''gene-batch'' \<or> disp = ''gene-label'' then Some (Tensor [1, 1] [0])
              else None),
      z_full_cov = full_cov,
      z_encoder = (if full_cov then ex_encoder_full 1 else ex_encoder 1),
      l_encoder = ex_encoder 1,
      decoder = ex_decoder 1\<rparr>"

definition ex_lnp :: "bool \<Rightarrow> LogNormalPoissonVAE" where
  "ex_lnp full_cov =
     \<lparr>lnp_n_latent = 1, lnp_log_variational = True, lnp_n_batch = 1, lnp_n_labels = 1,
      lnp_z_full_cov = full_cov, lnp_z_autoregressive = False,
      lnp_z_encoder = (if full_cov then ex_encoder_full 1 else ex_encoder 1),
      lnp_l_encoder = ex_encoder 1,
      lnp_decoder =
        (\<lambda>z library cats g.
           (Tensor (butlast (shape z) @ [1]) (replicate (prod_list (butlast (shape z))) 1), g))\<rparr>"

text \<open>A \<open>MeanVarianceVAE\<close> with \<open>n_r_hidden = 1\<close>, in the default mode \<open>gene\<close>.\<close>

definition ex_mv :: "unit MeanVarianceVAE" where
  "ex_mv =
     \<lparr>dispersion = ''gene'', n_latent = 1, log_variational = True,
      reconstruction_loss = ''zinb'', n_batch = 1, n_labels = 1,
      px_r = Some (Tensor [1] [0]), z_full_cov = False,
      z_encoder = ex_encoder 1, l_encoder = ex_encoder 1, decoder = ex_decoder 1,
      px_r_net = (\<lparr>weight = Tensor [1, 1] [1], bias = Tensor [1] [0]\<rparr>,
                  \<lparr>weight = Tensor [1, 1] [1], bias = Tensor [1] [0]\<rparr>)\<rparr>"


text \<open>One cell with a count of 0 for the one gene; a column \<open>[[c]]\<close> of shape \<open>(1, 1)\<close>.\<close>

definition ex_x :: tensor where
  "ex_x = Tensor [1, 1] [0]"

definition ex_col :: "real \<Rightarrow> tensor" where
  "ex_col c = Tensor [1, 1] [c]"

text \<open>What \<open>inference\<close> returns on the example models, up to the dispersion \<open>r\<close>.\<close>

definition ex_out :: "tensor \<Rightarrow> outputs" where
  "ex_out r = \<lparr>out_px_scale = Tensor [1, 1] [0], out_px_r = r,
            out_px_rate = Tensor [1, 1] [0], out_px_dropout = Tensor [1, 1] [0],
            out_qz_m = Tensor [1, 1] [0], out_qz_v = Tensor [1, 1] [1], out_z = Tensor [1, 1] [0],
            out_ql_m = Tensor [1, 1] [0], out_ql_v = Tensor [1, 1] [1],
            out_library = Tensor [1, 1] [0]\<rparr>"

text \<open>
  A second family of examples, in which the sizes differ from one another: two cells,
  three genes and four latent dimensions. The prior means of the library size differ
  between the two cells, so that the two cells have different losses.
\<close>

definition ex_vae2 :: "bool \<Rightarrow> unit VAE" where
  "ex_vae2 full_cov =
     \<lparr>dispersion = ''gene'', n_latent = 4, log_variational = True, reconstruction_loss = ''zinb'',
      n_batch = 1, n_labels = 1, px_r = Some (Tensor [3] [0, 0, 0]),
      z_full_cov = full_cov,
      z_encoder = (if full_cov then ex_encoder_full 4 else ex_encoder 4),
      l_encoder = ex_encoder 1,
      decoder = ex_decoder 3\<rparr>"

definition ex_lnp2 :: "bool \<Rightarrow> LogNormalPoissonVAE" where
  "ex_lnp2 full_cov =
     \<lparr>lnp_n_latent = 4, lnp_log_variational = True, lnp_n_batch = 1, lnp_n_labels = 1,
      lnp_z_full_cov = full_cov, lnp_z_autoregressive = False,
      lnp_z_encoder = (if full_cov then ex_encoder_full 4 else ex_encoder 4),
      lnp_l_encoder = ex_encoder 1,
      lnp_decoder =
        (\<lambda>z library cats g.
           (Tensor (butlast (shape z) @ [3]) (replicate (prod_list (butlast (shape z)) * 3) 1),
            g))\<rparr>"

definition ex_x2 :: tensor where
  "ex_x2 = Tensor [2, 3] [0, 1, 2, 3, 4, 5]"

definition ex_lm2 :: tensor where
  "ex_lm2 = Tensor [2, 1] [1, 2]"

definition ex_lv2 :: tensor where
  "ex_lv2 = Tensor [2, 1] [1, 1]"

text \<open>What \<open>inference\<close> returns on the models of the second family.\<close>

definition ex_out2 :: "bool \<Rightarrow> outputs" where
  "ex_out2 full_cov =
     \<lparr>out_px_scale = Tensor [2, 3] (replicate 6 0), out_px_r = Tensor [3] [1, 1, 1],
      out_px_rate = Tensor [2, 3] (replicate 6 0), out_px_dropout = Tensor [2, 3] (replicate 6 0),
      out_qz_m = Tensor [2, 4] (replicate 8 0),
      out_qz_v = (if full_cov then Tensor [2, 4, 4] (concat (replicate 2 (vals (torch_eye 4))))
                  else Tensor [2, 4] (replicate 8 1)),
      out_z = Tensor [2, 4] (replicate 8 0),
      out_ql_m = Tensor [2, 1] (replicate 2 0), out_ql_v = Tensor [2, 1] (replicate 2 1),
      out_library = Tensor [2, 1] (replicate 2 0)\<rparr>"

section \<open>Auxiliary facts\<close>

lemma bindE_Inr_iff: "bindE m f = Inr v \<longleftrightarrow> (\<exists>a. m = Inr a \<and> f a = Inr v)"
  by (cases m) (simp_all add: bindE_def)

lemma bindE_Inl [simp]: "bindE (Inl e) f = Inl e"
  by (simp add: bindE_def)

lemma bindE_Inr [simp]: "bindE (Inr a) f = f a"
  by (simp add: bindE_def)

lemma encode_full_cov:
  assumes "1 < n_samples" "full_cov"
  shows "encode lv full_cov ze le x y n_samples g0 =
     (Inl AssertionError,
      snd (enc_forward le (log_transform lv x) []
             (snd (enc_forward ze (log_transform lv x) [y] g0))))"
  using assms by (simp add: encode_def Let_def split: prod.splits)

lemma encode_single:
  "encode lv full_cov ze le x y 1 g0 =
     (let r1 = enc_forward ze (log_transform lv x) [y] g0;
          r2 = enc_forward le (log_transform lv x) [] (snd r1)
      in (Inr (fst (fst r1), fst (snd (fst r1)), snd (snd (fst r1)),
               fst (fst r2), fst (snd (fst r2)), snd (snd (fst r2))), snd r2))"
  by (simp add: encode_def Let_def split: prod.splits)

lemma VAE_inference_step:
  assumes "encode (log_variational M) (z_full_cov M) (z_encoder M) (l_encoder M) x y n g0
             = (Inr (qz_m, qz_v, z, ql_m, ql_v, library), g1)"
    and "dec_forward (decoder M) (dispersion M) z library [batch_index, y] g1
             = ((px_scale, pr, px_rate, px_dropout), g')"
  shows "VAE_inference T M x batch_index y n g0 =
     (bindE (resolve_px_r T M pr batch_index y) (\<lambda>r.
        Inr \<lparr>out_px_scale = px_scale, out_px_r = torch_exp r, out_px_rate = px_rate,
             out_px_dropout = px_dropout, out_qz_m = qz_m, out_qz_v = qz_v, out_z = z,
             out_ql_m = ql_m, out_ql_v = ql_v, out_library = library\<rparr>), g')"
  using assms by (simp add: VAE_inference_def)




lemma VAE_inference_Inr:
  assumes "VAE_inference T M x batch_index y n g0 = (Inr out, g)"
  obtains qz_m qz_v z ql_m ql_v library g1 px_scale pr px_rate px_dropout r where
    "encode (log_variational M) (z_full_cov M) (z_encoder M) (l_encoder M) x y n g0
       = (Inr (qz_m, qz_v, z, ql_m, ql_v, library), g1)"
    "dec_forward (decoder M) (dispersion M) z library [batch_index, y] g1
       = ((px_scale, pr, px_rate, px_dropout), g)"
    "resolve_px_r T M pr batch_index y = Inr r"
    "out = \<lparr>out_px_scale = px_scale, out_px_r = torch_exp r, out_px_rate = px_rate,
             out_px_dropout = px_dropout, out_qz_m = qz_m, out_qz_v = qz_v, out_z = z,
             out_ql_m = ql_m, out_ql_v = ql_v, out_library = library\<rparr>"
  using assms
  by (auto simp: VAE_inference_def bindE_Inr_iff split: prod.splits sum.splits)

lemma MeanVarianceVAE_inference_Inr:
  assumes "MeanVarianceVAE_inference T M x batch_index y n g0 = (Inr out, g)"
  obtains qz_m qz_v z ql_m ql_v library g1 px_scale pr px_rate px_dropout nb_mean r where
    "encode (log_variational M) (z_full_cov M) (z_encoder M) (l_encoder M) x y n g0
       = (Inr (qz_m, qz_v, z, ql_m, ql_v, library), g1)"
    "dec_forward (decoder M) (dispersion M) z library [batch_index, y] g1
       = ((px_scale, pr, px_rate, px_dropout), g)"
    "t_mul px_scale library = Inr nb_mean"
    "px_r_net_forward (px_r_net M) (view_column nb_mean) = Inr r"
    "prod_list (shape nb_mean) = prod_list (shape r)"
    "shape nb_mean = shape px_scale"
    "out = \<lparr>out_px_scale = px_scale, out_px_r = torch_exp (Tensor (shape nb_mean) (vals r)),
             out_px_rate = px_rate,
             out_px_dropout = px_dropout, out_qz_m = qz_m, out_qz_v = qz_v, out_z = z,
             out_ql_m = ql_m, out_ql_v = ql_v, out_library = library\<rparr>"
  using assms
  by (auto simp: MeanVarianceVAE_inference_def bindE_Inr_iff view_as_def
      split: prod.splits sum.splits if_splits)

lemmas ex_defs = ex_vae_def ex_extern_def ex_encoder_def ex_encoder_full_def ex_decoder_def
  ex_x_def ex_col_def ex_lnp_def ex_mv_def manual_seed_def

lemmas tensor_defs = log_transform_def torch_log_def torch_exp_def float32_underflow_def
  torch_sqrt_def scalar_add_def
  t_map_def t_neg_def t_add_def t_sub_def t_mul_def t_bin_def broadcast_shapes_def bidx_def
  t_atb_def t_at_def ravel_def F_linear_def rows_of_def dot_def expand0_def

lemma ex_inference_gene:
  "VAE_inference ex_extern (ex_vae ''gene'' ''zinb'' False) ex_x None None 1 (manual_seed 0)
   = (Inr (ex_out (Tensor [1] [1])), Rng 0 2)"
  by (simp add: VAE_inference_def encode_single resolve_px_r_def self_px_r_def ex_defs tensor_defs
      ex_out_def Let_def)

lemma ex_inference_gene_batch:
  "VAE_inference ex_extern (ex_vae ''gene-batch'' ''zinb'' False) ex_x (Some (ex_col 0)) None 1
     (manual_seed 0)
   = (Inr (ex_out (Tensor [1, 1] [1])), Rng 0 2)"
  by (simp add: VAE_inference_def encode_single resolve_px_r_def self_px_r_def ex_defs tensor_defs
      ex_out_def Let_def)

lemma ex_inference_gene_label:
  "VAE_inference ex_extern (ex_vae ''gene-label'' ''zinb'' False) ex_x None (Some (ex_col 0)) 1
     (manual_seed 0)
   = (Inr (ex_out (Tensor [1, 1] [1])), Rng 0 2)"
  by (simp add: VAE_inference_def encode_single resolve_px_r_def self_px_r_def ex_defs tensor_defs
      ex_out_def Let_def)

lemma ex_inference_gene_cell:
  "VAE_inference ex_extern (ex_vae ''gene-cell'' ''zinb'' False) ex_x None None 1 (manual_seed 0)
   = (Inr (ex_out (Tensor [1, 1] [1])), Rng 0 2)"
  by (simp add: VAE_inference_def encode_single resolve_px_r_def self_px_r_def ex_defs tensor_defs
      ex_out_def Let_def)

lemma ex_inference_mv:
  "MeanVarianceVAE_inference ex_extern ex_mv ex_x None None 1 (manual_seed 0)
   = (Inr (ex_out (Tensor [1, 1] [1])), Rng 0 2)"
  by (simp add: MeanVarianceVAE_inference_def encode_single px_r_net_forward_def Linear_forward_def
      torch_relu_def view_column_def view_as_def ex_defs tensor_defs ex_out_def Let_def)

subsection \<open>Indices, broadcasting and reductions\<close>

lemma length_indices: "length (indices s) = prod_list s"
proof (induction s)
  case Nil
  then show ?case by simp
next
  case (Cons n ns)
  have "map (length \<circ> (\<lambda>i. map ((#) i) (indices ns))) [0..<n] = replicate n (prod_list ns)"
    by (simp add: Cons map_replicate_const comp_def)
  then show ?case by (simp add: length_concat sum_list_replicate)
qed

lemma indices_length: "idx \<in> set (indices s) \<Longrightarrow> length idx = length s"
  by (induction s arbitrary: idx) auto

lemma indices_bound: "idx \<in> set (indices s) \<Longrightarrow> list_all2 (<) idx s"
  by (induction s arbitrary: idx) auto

lemma bidx_indices:
  assumes "idx \<in> set (indices s)"
  shows "bidx s idx = idx"
proof -
  have "list_all2 (<) idx s" using assms by (rule indices_bound)
  then have "map (\<lambda>(n, i). if n = 1 then 0 else i) (zip s idx) = idx"
    by (induction idx s rule: list_all2_induct) auto
  then show ?thesis
    using indices_length [OF assms] by (simp add: bidx_def)
qed

lemma foldl_ravel:
  "length idx = length s \<Longrightarrow>
     foldl (\<lambda>acc (n, i). acc * n + i) a (zip s idx) = a * prod_list s + ravel s idx"
proof (induction s arbitrary: a idx)
  case Nil
  then show ?case by (simp add: ravel_def)
next
  case (Cons n ns)
  then obtain i js where idx: "idx = i # js" "length js = length ns"
    by (cases idx) auto
  have "foldl (\<lambda>acc (n, i). acc * n + i) (a * n + i) (zip ns js)
          = (a * n + i) * prod_list ns + ravel ns js"
    using Cons.IH idx by simp
  moreover have "ravel (n # ns) (i # js) = i * prod_list ns + ravel ns js"
    using Cons.IH [of js i] idx by (simp add: ravel_def)
  ultimately show ?case by (simp add: idx algebra_simps)
qed

lemma ravel_Cons:
  "length js = length ns \<Longrightarrow> ravel (n # ns) (i # js) = i * prod_list ns + ravel ns js"
  using foldl_ravel [of js ns i] by (simp add: ravel_def)

lemma concat_blocks:
  "concat (map (\<lambda>i. map (\<lambda>k. i * p + k) [0..<p]) [0..<n]) = [0..<n * p]"
proof (induction n)
  case 0
  then show ?case by simp
next
  case (Suc n)
  have blk: "map (\<lambda>k. n * p + k) [0..<p] = [n * p..<n * p + p]"
    using map_add_upt [of "n * p" p] by (simp add: add.commute)
  have "concat (map (\<lambda>i. map (\<lambda>k. i * p + k) [0..<p]) [0..<Suc n])
          = concat (map (\<lambda>i. map (\<lambda>k. i * p + k) [0..<p]) [0..<n])
            @ map (\<lambda>k. n * p + k) [0..<p]"
    by simp
  also have "\<dots> = [0..<n * p] @ [n * p..<n * p + p]"
    by (simp only: Suc blk)
  also have "\<dots> = [0..<n * p + p]"
    by (rule upt_add_eq_append [symmetric]) simp
  finally show ?case by (simp add: add.commute)
qed

lemma map_ravel_indices: "map (ravel s) (indices s) = [0..<prod_list s]"
proof (induction s)
  case Nil
  then show ?case by (simp add: ravel_def)
next
  case (Cons n ns)
  have "map (ravel (n # ns)) (map ((#) i) (indices ns))
          = map (\<lambda>k. i * prod_list ns + k) [0..<prod_list ns]" for i
  proof -
    have "map (ravel (n # ns)) (map ((#) i) (indices ns))
            = map (\<lambda>js. i * prod_list ns + ravel ns js) (indices ns)"
      by (simp add: ravel_Cons indices_length)
    also have "\<dots> = map (\<lambda>k. i * prod_list ns + k) (map (ravel ns) (indices ns))"
      by simp
    finally show ?thesis by (simp add: Cons)
  qed
  then show ?case
    by (simp add: map_concat comp_def concat_blocks)
qed

lemma map_t_at_indices:
  assumes "wf_tensor t"
  shows "map (t_at t) (indices (shape t)) = vals t"
proof -
  have "map (t_at t) (indices (shape t))
          = map (\<lambda>k. if k < length (vals t) then vals t ! k else 0)
                (map (ravel (shape t)) (indices (shape t)))"
    by (simp add: t_at_def Let_def)
  also have "\<dots> = map (\<lambda>k. vals t ! k) [0..<length (vals t)]"
    using assms by (simp add: map_ravel_indices wf_tensor_def)
  finally show ?thesis by (simp add: map_nth)
qed

lemma map_t_atb_indices:
  assumes "wf_tensor t"
  shows "map (t_atb t) (indices (shape t)) = vals t"
proof -
  have "map (t_atb t) (indices (shape t)) = map (t_at t) (indices (shape t))"
    by (simp add: t_atb_def bidx_indices)
  then show ?thesis using assms by (simp add: map_t_at_indices)
qed

lemma broadcast_rev_same: "broadcast_rev s s = Some s"
  by (induction s) auto

lemma broadcast_shapes_same [simp]: "broadcast_shapes s s = Some s"
  by (simp add: broadcast_shapes_def broadcast_rev_same)

lemma map2_same:
  "map (\<lambda>i. f (g i) (h i)) xs = map (\<lambda>(u, v). f u v) (zip (map g xs) (map h xs))"
  by (induction xs) simp_all

lemma t_bin_same_shape:
  assumes "shape a = shape b" "wf_tensor a" "wf_tensor b"
  shows "t_bin f a b = Inr (Tensor (shape a) (map (\<lambda>(u, v). f u v) (zip (vals a) (vals b))))"
proof -
  have "map (\<lambda>idx. f (t_atb a idx) (t_atb b idx)) (indices (shape a))
          = map (\<lambda>(u, v). f u v) (zip (map (t_atb a) (indices (shape a)))
                                       (map (t_atb b) (indices (shape a))))"
    by (rule map2_same)
  also have "\<dots> = map (\<lambda>(u, v). f u v) (zip (vals a) (vals b))"
    using assms map_t_atb_indices [of a] map_t_atb_indices [of b] by simp
  finally show ?thesis
    using assms by (simp add: t_bin_def)
qed

lemma shape_expand_to [simp]: "shape (expand_to s t) = s"
  by (simp add: expand_to_def)

lemma wf_expand_to [simp]: "wf_tensor (expand_to s t)"
  by (simp add: expand_to_def wf_tensor_def length_indices)

lemma shape_t_map [simp]: "shape (t_map f t) = shape t"
  by (simp add: t_map_def)

lemma wf_t_map [simp]: "wf_tensor (t_map f t) = wf_tensor t"
  by (simp add: t_map_def wf_tensor_def)

lemma shape_t_neg [simp]: "shape (t_neg t) = shape t"
  by (simp add: t_neg_def)

lemma wf_t_neg [simp]: "wf_tensor (t_neg t) = wf_tensor t"
  by (simp add: t_neg_def)

lemma shape_torch_sqrt [simp]: "shape (torch_sqrt t) = shape t"
  by (simp add: torch_sqrt_def)

lemma broadcast_2d_1d [simp]: "broadcast_shapes [b, n] [n] = Some [b, n]"
  by (simp add: broadcast_shapes_def)

lemma t_bin_shape:
  assumes "broadcast_shapes (shape a) (shape b) = Some s"
  shows "\<exists>r. t_bin f a b = Inr r \<and> shape r = s \<and> wf_tensor r"
  using assms by (simp add: t_bin_def wf_tensor_def length_indices)

lemma t_sum_last_2d:
  assumes "shape t = [b, n]" "d = 1 \<or> d = -1"
  shows "\<exists>r. t_sum t d = Inr r \<and> shape r = [b] \<and> wf_tensor r"
  using assms
  by (auto simp: t_sum_def reduce_dim_def norm_dim_def wf_tensor_def length_indices)

lemma mk_Normal_same:
  assumes "shape loc = s" "shape scale = s"
  shows "mk_Normal loc scale = Inr (Normal (expand_to s loc) (expand_to s scale))"
  using assms by (simp add: mk_Normal_def)

lemma kl_Normal_shape:
  assumes "broadcast_shapes (shape p_loc) (shape q_loc) = Some s"
  shows "\<exists>r. kl T (Normal p_loc p_scale) (Normal q_loc q_scale) = Inr r \<and> shape r = s
           \<and> wf_tensor r"
  using assms by (simp add: kl_def wf_tensor_def length_indices)

lemma log_prob_Normal_shape:
  assumes "broadcast_shapes (shape loc) (shape v) = Some s"
  shows "\<exists>r. log_prob T (Normal loc scale) v = Inr r \<and> shape r = s \<and> wf_tensor r"
  using assms by (simp add: log_prob_def wf_tensor_def length_indices)

lemma log_prob_Poisson_shape:
  assumes "broadcast_shapes (shape rate) (shape v) = Some s"
  shows "\<exists>r. log_prob T (Poisson rate) v = Inr r \<and> shape r = s \<and> wf_tensor r"
  using assms by (simp add: log_prob_def wf_tensor_def length_indices)

lemma kl_MVN_shape:
  assumes "shape p_loc = [b, n]" "shape p_cov = [b, n, n]" "shape q_loc = [n]" "shape q_cov = [n, n]"
  shows "\<exists>r. kl T (MultivariateNormal p_loc p_cov) (MultivariateNormal q_loc q_cov) = Inr r
           \<and> shape r = [b] \<and> wf_tensor r"
  using assms
  by (simp add: kl_def mvn_batch_shape_def broadcast_shapes_def wf_tensor_def length_indices)

lemma kl_l_shape:
  assumes "shape ql_m = [b, 1]" "shape ql_v = [b, 1]" "shape lm = [b, 1]" "shape lv = [b, 1]"
  shows "\<exists>ql pl k r.
    mk_Normal ql_m (torch_sqrt ql_v) = Inr ql \<and> mk_Normal lm (torch_sqrt lv) = Inr pl
    \<and> kl T ql pl = Inr k \<and> t_sum k 1 = Inr r \<and> shape r = [b] \<and> wf_tensor r"
proof -
  have 1: "mk_Normal ql_m (torch_sqrt ql_v)
             = Inr (Normal (expand_to [b, 1] ql_m) (expand_to [b, 1] (torch_sqrt ql_v)))"
    using assms by (simp add: mk_Normal_same)
  have 2: "mk_Normal lm (torch_sqrt lv)
             = Inr (Normal (expand_to [b, 1] lm) (expand_to [b, 1] (torch_sqrt lv)))"
    using assms by (simp add: mk_Normal_same)
  have "broadcast_shapes (shape (expand_to [b, 1] ql_m)) (shape (expand_to [b, 1] lm))
          = Some [b, 1]"
    by simp
  from kl_Normal_shape [OF this]
  obtain k where k: "kl T (Normal (expand_to [b, 1] ql_m) (expand_to [b, 1] (torch_sqrt ql_v)))
                         (Normal (expand_to [b, 1] lm) (expand_to [b, 1] (torch_sqrt lv))) = Inr k"
    "shape k = [b, 1]"
    by blast
  obtain r where "t_sum k 1 = Inr r" "shape r = [b]" "wf_tensor r"
    using t_sum_last_2d [OF k(2), of 1] by blast
  then show ?thesis using 1 2 k by blast
qed

lemma kl_z_shape:
  assumes "latent_shapes b n qz pz"
  shows "\<exists>k r. kl T qz pz = Inr k
           \<and> (if length (shape k) = 2 then t_sum k 1 else Inr k) = Inr r \<and> shape r = [b]"
proof (cases qz)
  case (Normal q_loc q_scale)
  then obtain p_loc p_scale where pz: "pz = Normal p_loc p_scale"
    and sh: "shape q_loc = [b, n]" "shape p_loc = [n]"
    using assms by (auto simp: latent_shapes_def split: distribution.splits)
  have "broadcast_shapes (shape q_loc) (shape p_loc) = Some [b, n]"
    by (simp add: sh)
  from kl_Normal_shape [OF this]
  obtain k where k: "kl T (Normal q_loc q_scale) (Normal p_loc p_scale) = Inr k" "shape k = [b, n]"
    by blast
  obtain r where "t_sum k 1 = Inr r" "shape r = [b]"
    using t_sum_last_2d [OF k(2), of 1] by blast
  then show ?thesis using k Normal pz by simp
next
  case (MultivariateNormal q_loc q_cov)
  then obtain p_loc p_cov where pz: "pz = MultivariateNormal p_loc p_cov"
    and sh: "shape q_loc = [b, n]" "shape q_cov = [b, n, n]" "shape p_loc = [n]"
      "shape p_cov = [n, n]"
    using assms by (auto simp: latent_shapes_def split: distribution.splits)
  from kl_MVN_shape [OF sh]
  obtain k where "kl T (MultivariateNormal q_loc q_cov) (MultivariateNormal p_loc p_cov) = Inr k"
    "shape k = [b]"
    by blast
  then show ?thesis using MultivariateNormal pz by simp
next
  case (Poisson rate)
  then show ?thesis using assms by (simp add: latent_shapes_def)
qed

lemma forward_losses_Inr_iff:
  "forward_losses T M x lm lv out = Inr (loss, klz) \<longleftrightarrow>
     (\<exists>qz pz kl_z ql pl kl_l kl_divergence_l reconst_loss.
        enc_distrib (z_encoder M) (out_qz_m out) (out_qz_v out) = Inr qz
        \<and> enc_distrib (z_encoder M) (torch_zeros (n_latent M))
             (if z_full_cov M then torch_eye (n_latent M) else torch_ones (n_latent M)) = Inr pz
        \<and> kl T qz pz = Inr kl_z
        \<and> (if length (shape kl_z) = 2 then t_sum kl_z 1 else Inr kl_z) = Inr klz
        \<and> mk_Normal (out_ql_m out) (torch_sqrt (out_ql_v out)) = Inr ql
        \<and> mk_Normal lm (torch_sqrt lv) = Inr pl
        \<and> kl T ql pl = Inr kl_l
        \<and> t_sum kl_l 1 = Inr kl_divergence_l
        \<and> VAE_reconstruction_loss T M x (out_px_rate out) (out_px_r out) (out_px_dropout out)
             = Inr reconst_loss
        \<and> t_add reconst_loss kl_divergence_l = Inr loss)"
  unfolding forward_losses_def VAE_get_prior_params_def Let_def prod.case bindE_Inr_iff
  by (simp add: sum.inject) blast

lemma lnp_forward_losses_Inr_iff:
  "lnp_forward_losses T M x lm lv (px_rate, qz_m, qz_v, z, ql_m, ql_v, library) = Inr (loss, klz)
   \<longleftrightarrow>
     (\<exists>qz pz kl_z ql pl kl_l kl_divergence_l reconst_loss.
        enc_distrib (lnp_z_encoder M) qz_m qz_v = Inr qz
        \<and> enc_distrib (lnp_z_encoder M) (torch_zeros (lnp_n_latent M))
             (if lnp_z_full_cov M \<or> lnp_z_autoregressive M then torch_eye (lnp_n_latent M)
              else torch_ones (lnp_n_latent M)) = Inr pz
        \<and> kl T qz pz = Inr kl_z
        \<and> (if length (shape kl_z) = 2 then t_sum kl_z 1 else Inr kl_z) = Inr klz
        \<and> mk_Normal ql_m (torch_sqrt ql_v) = Inr ql
        \<and> mk_Normal lm (torch_sqrt lv) = Inr pl
        \<and> kl T ql pl = Inr kl_l
        \<and> t_sum kl_l 1 = Inr kl_divergence_l
        \<and> LogNormalPoissonVAE_reconstruction_loss T x px_rate = Inr reconst_loss
        \<and> t_add reconst_loss kl_divergence_l = Inr loss)"
  unfolding lnp_forward_losses_def LogNormalPoissonVAE_get_prior_params_def Let_def prod.case
    bindE_Inr_iff
  by (simp add: sum.inject) blast

lemma VAE_forward_Inr_iff:
  "VAE_forward T M x lm lv batch_index y g0 = (Inr v, g) \<longleftrightarrow>
     (\<exists>out. VAE_inference T M x batch_index y 1 g0 = (Inr out, g)
        \<and> forward_losses T M x lm lv out = Inr v)"
  by (auto simp: VAE_forward_def split: prod.splits sum.splits)

lemma lnp_forward_Inr_iff:
  "LogNormalPoissonVAE_forward T L x lm lv batch_index y g0 = (Inr v, g) \<longleftrightarrow>
     (\<exists>out. LogNormalPoissonVAE_inference L x batch_index y 1 (manual_seed 42) = (Inr out, g)
        \<and> lnp_forward_losses T L x lm lv out = Inr v)"
  by (auto simp: LogNormalPoissonVAE_forward_def Let_def split: prod.splits sum.splits)

lemmas dist_defs = kl_def log_prob_def mk_Normal_def expand_to_def normal_kl_def normal_logpdf_def
  t_sum_def t_mean_def reduce_dim_def norm_dim_def mvn_batch_shape_def vec_at_def mat_at_def
  torch_zeros_def torch_ones_def torch_eye_def tensor_dim_def

lemma ex_losses_gene:
  "forward_losses ex_extern (ex_vae ''gene'' ''zinb'' False) ex_x (ex_col 0) (ex_col 1)
     (ex_out (Tensor [1] [1]))
   = Inr (Tensor [1] [0], Tensor [1] [0])"
  by (simp add: forward_losses_def VAE_get_prior_params_def VAE_reconstruction_loss_def ex_out_def
      ex_defs tensor_defs dist_defs)

lemma ex_forward_gene:
  "VAE_forward ex_extern (ex_vae ''gene'' ''zinb'' False) ex_x (ex_col 0) (ex_col 1) None None
     (manual_seed 0)
   = (Inr (Tensor [1] [0], Tensor [1] [0]), Rng 0 2)"
  by (simp add: VAE_forward_def ex_inference_gene ex_losses_gene del: One_nat_def)

lemma ex_inference_full:
  "VAE_inference ex_extern (ex_vae ''gene'' ''zinb'' True) ex_x None None 1 (manual_seed 0)
   = (Inr ((ex_out (Tensor [1] [1]))\<lparr>out_qz_v := Tensor [1, 1, 1] [1]\<rparr>), Rng 0 2)"
  by (simp add: VAE_inference_def encode_single resolve_px_r_def self_px_r_def ex_defs tensor_defs
      dist_defs ex_out_def Let_def)

lemma ex_losses_full:
  "forward_losses ex_extern (ex_vae ''gene'' ''zinb'' True) ex_x (ex_col 0) (ex_col 1)
     ((ex_out (Tensor [1] [1]))\<lparr>out_qz_v := Tensor [1, 1, 1] [1]\<rparr>)
   = Inr (Tensor [1] [0], Tensor [1] [0])"
  by (simp add: forward_losses_def VAE_get_prior_params_def VAE_reconstruction_loss_def ex_out_def
      ex_defs tensor_defs dist_defs)

lemma ex_forward_full:
  "VAE_forward ex_extern (ex_vae ''gene'' ''zinb'' True) ex_x (ex_col 0) (ex_col 1) None None
     (manual_seed 0)
   = (Inr (Tensor [1] [0], Tensor [1] [0]), Rng 0 2)"
  by (simp add: VAE_forward_def ex_inference_full ex_losses_full del: One_nat_def)

lemma ex_inference_lnp:
  "LogNormalPoissonVAE_inference (ex_lnp False) ex_x None None 1 (manual_seed 42)
   = (Inr (Tensor [1, 1] [1], Tensor [1, 1] [0], Tensor [1, 1] [1], Tensor [1, 1] [0],
           Tensor [1, 1] [0], Tensor [1, 1] [1], Tensor [1, 1] [0]), Rng 42 2)"
  by (simp add: LogNormalPoissonVAE_inference_def encode_single ex_defs tensor_defs Let_def)

lemma ex_losses_lnp:
  "lnp_forward_losses ex_extern (ex_lnp False) ex_x (ex_col 0) (ex_col 1)
     (Tensor [1, 1] [1], Tensor [1, 1] [0], Tensor [1, 1] [1], Tensor [1, 1] [0],
      Tensor [1, 1] [0], Tensor [1, 1] [1], Tensor [1, 1] [0])
   = Inr (Tensor [1] [1], Tensor [1] [0])"
  by (simp add: lnp_forward_losses_def LogNormalPoissonVAE_get_prior_params_def
      LogNormalPoissonVAE_reconstruction_loss_def ex_defs tensor_defs dist_defs)

lemma ex_forward_lnp:
  "LogNormalPoissonVAE_forward ex_extern (ex_lnp False) ex_x (ex_col 0) (ex_col 1) None None g
   = (Inr (Tensor [1] [1], Tensor [1] [0]), Rng 42 2)"
  by (simp add: LogNormalPoissonVAE_forward_def ex_inference_lnp ex_losses_lnp del: One_nat_def)

lemma reconstruction_loss_shape:
  assumes "reconstruction_loss M = ''zinb'' \<or> reconstruction_loss M = ''nb''"
    and "shape (log_zinb_positive T x rate r dropout) = s"
    and "shape (log_nb_positive T x rate r) = s"
  shows "\<exists>l. VAE_reconstruction_loss T M x rate r dropout = Inr l \<and> shape l = s"
  using assms by (auto simp: VAE_reconstruction_loss_def)

lemma lnp_reconstruction_loss_shape:
  assumes "shape x = [b, n_input]" "shape px_rate = [b, n_input]"
  shows "\<exists>l. LogNormalPoissonVAE_reconstruction_loss T x px_rate = Inr l \<and> shape l = [b]"
proof -
  have "broadcast_shapes (shape px_rate) (shape x) = Some [b, n_input]"
    using assms by simp
  from log_prob_Poisson_shape [OF this]
  obtain lp where lp: "log_prob T (Poisson px_rate) x = Inr lp" "shape lp = [b, n_input]"
    by blast
  have "shape (t_neg lp) = [b, n_input]" using lp by simp
  from t_sum_last_2d [OF this, of "-1"]
  obtain l where "t_sum (t_neg lp) (-1) = Inr l" "shape l = [b]"
    by auto
  then show ?thesis
    using lp by (simp add: LogNormalPoissonVAE_reconstruction_loss_def tensor_dim_def)
qed

lemma ex_vae_sel [simp]:
  "dispersion (ex_vae d l c) = d" "n_latent (ex_vae d l c) = 1"
  "log_variational (ex_vae d l c) = True" "reconstruction_loss (ex_vae d l c) = l"
  "n_batch (ex_vae d l c) = 1" "n_labels (ex_vae d l c) = 1"
  "z_full_cov (ex_vae d l c) = c"
  "z_encoder (ex_vae d l c) = (if c then ex_encoder_full 1 else ex_encoder 1)"
  "l_encoder (ex_vae d l c) = ex_encoder 1" "decoder (ex_vae d l c) = ex_decoder 1"
  by (simp_all add: ex_vae_def)

lemma ex_lnp_sel [simp]:
  "lnp_n_latent (ex_lnp c) = 1" "lnp_log_variational (ex_lnp c) = True"
  "lnp_z_full_cov (ex_lnp c) = c" "lnp_z_autoregressive (ex_lnp c) = False"
  "lnp_z_encoder (ex_lnp c) = (if c then ex_encoder_full 1 else ex_encoder 1)"
  "lnp_l_encoder (ex_lnp c) = ex_encoder 1"
  by (simp_all add: ex_lnp_def)

lemma ex_shapes [simp]: "shape ex_x = [1, 1]" "shape (ex_col c) = [1, 1]"
  by (simp_all add: ex_x_def ex_col_def)

lemma ex_out_sel [simp]:
  "out_px_scale (ex_out r) = Tensor [1, 1] [0]" "out_px_r (ex_out r) = r"
  "out_px_rate (ex_out r) = Tensor [1, 1] [0]" "out_px_dropout (ex_out r) = Tensor [1, 1] [0]"
  "out_qz_m (ex_out r) = Tensor [1, 1] [0]" "out_qz_v (ex_out r) = Tensor [1, 1] [1]"
  "out_z (ex_out r) = Tensor [1, 1] [0]" "out_ql_m (ex_out r) = Tensor [1, 1] [0]"
  "out_ql_v (ex_out r) = Tensor [1, 1] [1]" "out_library (ex_out r) = Tensor [1, 1] [0]"
  by (simp_all add: ex_out_def)

lemma ex_extern_shapes [simp]:
  "shape (log_zinb_positive ex_extern x r p d) = butlast (shape x)"
  "shape (log_nb_positive ex_extern x r p) = butlast (shape x)"
  by (simp_all add: ex_extern_def)

lemma ex_distrib_diag:
  "enc_distrib (ex_encoder n) m v = mk_Normal m (torch_sqrt v)"
  by (simp add: ex_encoder_def)

lemma ex_distrib_full:
  "enc_distrib (ex_encoder_full n) m v = Inr (MultivariateNormal m v)"
  by (simp add: ex_encoder_full_def)

lemma ex_ratio_terms_full:
  "ratio_terms ex_extern (ex_vae ''gene'' ''zinb'' True) ex_x (ex_col 0) (ex_col 1)
     ((ex_out (Tensor [1] [1]))\<lparr>out_qz_v := Tensor [1, 1, 1] [1]\<rparr>)
   = Inr (Tensor [1] [0], Tensor [1] [- ln (sqrt (2 * pi))], Tensor [] [0], Tensor [] [0],
          Tensor [1] [- ln (sqrt (2 * pi))])"
  by (simp add: ratio_terms_def VAE_get_prior_params_def VAE_reconstruction_loss_def ex_out_def
      ex_defs tensor_defs dist_defs)

lemma ex_ratio_terms_gene:
  "ratio_terms ex_extern (ex_vae ''gene'' ''zinb'' False) ex_x (ex_col 0) (ex_col 1)
     (ex_out (Tensor [1] [1]))
   = Inr (Tensor [1] [0], Tensor [1] [- ln (sqrt (2 * pi))], Tensor [1] [- ln (sqrt (2 * pi))],
          Tensor [1] [- ln (sqrt (2 * pi))], Tensor [1] [- ln (sqrt (2 * pi))])"
  by (simp add: ratio_terms_def VAE_get_prior_params_def VAE_reconstruction_loss_def ex_out_def
      ex_defs tensor_defs dist_defs)

lemma ex_ratio_combine_gene:
  "ratio_combine (Tensor [1] [0], Tensor [1] [c], Tensor [1] [c], Tensor [1] [c], Tensor [1] [c])
     = Inr (Tensor [] [0])"
  by (simp add: ratio_combine_def shapes_agree_def tensor_defs dist_defs)

lemma ex_ratio_loss_gene:
  "VAE_ratio_loss ex_extern (ex_vae ''gene'' ''zinb'' False) ex_x (ex_col 0) (ex_col 1) None None
     (manual_seed 0)
   = (Inr (Tensor [] [0]), Rng 0 2)"
  by (simp add: VAE_ratio_loss_def ex_inference_gene ex_ratio_terms_gene ex_ratio_combine_gene
      del: One_nat_def)

section \<open>The methods that are not implemented\<close>

text \<open>
  C6. On the Poisson model, \<open>get_sample_scale\<close>, \<open>get_sample_rate\<close>, \<open>get_log_ratio\<close>
  and \<open>scale_from_z\<close> raise \<open>NotImplementedError\<close> on every input, and the model and
  the generator are what they were before the call.
\<close>

theorem lnp_unimplemented_raise:
  "LogNormalPoissonVAE_get_sample_scale M x batch_index y n_samples g
     = (Inl NotImplementedError, M, g)
   \<and> LogNormalPoissonVAE_get_sample_rate M x batch_index y n_samples g
     = (Inl NotImplementedError, M, g)
   \<and> LogNormalPoissonVAE_get_log_ratio M x batch_index y n_samples g
     = (Inl NotImplementedError, M, g)
   \<and> LogNormalPoissonVAE_scale_from_z M sample_batch fixed_batch g
     = (Inl NotImplementedError, M, g)"
  by (simp add: LogNormalPoissonVAE_get_sample_scale_def LogNormalPoissonVAE_get_sample_rate_def
      LogNormalPoissonVAE_get_log_ratio_def LogNormalPoissonVAE_scale_from_z_def)

section \<open>The reconstruction loss is defined for two likelihoods only\<close>

lemma forward_losses_unbound:
  assumes "reconstruction_loss M \<noteq> ''zinb''" "reconstruction_loss M \<noteq> ''nb''"
  shows "forward_losses T M x lm lv out \<noteq> Inr v"
  using assms
  by (auto simp: forward_losses_def VAE_reconstruction_loss_def bindE_Inr_iff Let_def
      split: prod.splits)

lemma ratio_terms_unbound:
  assumes "reconstruction_loss M \<noteq> ''zinb''" "reconstruction_loss M \<noteq> ''nb''"
  shows "ratio_terms T M x lm lv out = Inl UnboundLocalError"
  using assms
  by (simp add: ratio_terms_def VAE_reconstruction_loss_def Let_def split: prod.splits)

text \<open>
  C10. \<open>_reconstruction_loss\<close> returns the negated log-likelihood when the configured
  \<open>reconstruction_loss\<close> is \<open>zinb\<close> or \<open>nb\<close>. For every other string it returns no tensor
  but raises (its result variable was never assigned), and then neither \<open>forward\<close> nor
  \<open>ratio_loss\<close> returns a value. So under the precondition that the string is \<open>zinb\<close> or
  \<open>nb\<close> the error is not reached.
\<close>

theorem reconstruction_loss_defined:
  "(reconstruction_loss M = ''zinb'' \<longrightarrow>
      VAE_reconstruction_loss T M x px_rate r px_dropout
        = Inr (t_neg (log_zinb_positive T x px_rate r px_dropout)))
   \<and> (reconstruction_loss M = ''nb'' \<longrightarrow>
      VAE_reconstruction_loss T M x px_rate r px_dropout
        = Inr (t_neg (log_nb_positive T x px_rate r)))
   \<and> (reconstruction_loss M \<noteq> ''zinb'' \<and> reconstruction_loss M \<noteq> ''nb'' \<longrightarrow>
      VAE_reconstruction_loss T M x px_rate r px_dropout = Inl UnboundLocalError
      \<and> (\<forall>v. fst (VAE_forward T M x lm lv batch_index y g) \<noteq> Inr v)
      \<and> (\<forall>v. fst (VAE_ratio_loss T M x lm lv batch_index y g) \<noteq> Inr v))"
proof -
  have "fst (VAE_forward T M x lm lv batch_index y g) \<noteq> Inr v"
    if "reconstruction_loss M \<noteq> ''zinb''" "reconstruction_loss M \<noteq> ''nb''" for v
    using forward_losses_unbound [OF that]
    by (auto simp: VAE_forward_def split: prod.splits sum.splits)
  moreover have "fst (VAE_ratio_loss T M x lm lv batch_index y g) \<noteq> Inr v"
    if "reconstruction_loss M \<noteq> ''zinb''" "reconstruction_loss M \<noteq> ''nb''" for v
    using ratio_terms_unbound [OF that]
    by (auto simp: VAE_ratio_loss_def split: prod.splits sum.splits)
  ultimately show ?thesis
    by (simp add: VAE_reconstruction_loss_def)
qed

theorem reconstruction_loss_defined_witness:
  "VAE_reconstruction_loss ex_extern (ex_vae ''gene'' ''zinb'' False) ex_x ex_x ex_x ex_x
     = Inr (Tensor [1] [0])
   \<and> VAE_reconstruction_loss ex_extern (ex_vae ''gene'' ''nb'' False) ex_x ex_x ex_x ex_x
     = Inr (Tensor [1] [0])
   \<and> VAE_reconstruction_loss ex_extern (ex_vae ''gene'' ''poisson'' False) ex_x ex_x ex_x ex_x
     = Inl UnboundLocalError
   \<and> (\<forall>v. fst (VAE_forward ex_extern (ex_vae ''gene'' ''poisson'' False) ex_x (ex_col 0) (ex_col 1)
              None None (manual_seed 0)) \<noteq> Inr v)"
  using reconstruction_loss_defined [of "ex_vae ''gene'' ''zinb'' False" ex_extern ex_x ex_x ex_x ex_x]
    reconstruction_loss_defined [of "ex_vae ''gene'' ''nb'' False" ex_extern ex_x ex_x ex_x ex_x]
    reconstruction_loss_defined [of "ex_vae ''gene'' ''poisson'' False" ex_extern ex_x ex_x ex_x ex_x
       "ex_col 0" "ex_col 1" None None "manual_seed 0"]
  by (simp add: ex_vae_def ex_extern_def ex_x_def t_neg_def t_map_def)

section \<open>The loadings of the linear decoder\<close>






section \<open>The fixed seed of the Poisson model\<close>

text \<open>
  C9. \<open>LogNormalPoissonVAE.forward\<close> reseeds the global generator with 42 before anything
  else. Two calls on the same model and inputs therefore return the same result from
  whatever generator states they start in, and the generator they leave behind is the
  one reached from seed 42: the state that the caller had is overwritten, which a caller
  can observe.
\<close>

theorem lnp_forward_reseeds:
  "LogNormalPoissonVAE_forward T M x lm lv batch_index y g
     = LogNormalPoissonVAE_forward T M x lm lv batch_index y g'
   \<and> snd (LogNormalPoissonVAE_forward T M x lm lv batch_index y g)
     = snd (LogNormalPoissonVAE_inference M x batch_index y 1 (manual_seed 42))
   \<and> (\<exists>g0. snd (LogNormalPoissonVAE_forward T M x lm lv batch_index y g0) \<noteq> g0)"
proof -
  have eq: "LogNormalPoissonVAE_forward T M x lm lv batch_index y g
     = LogNormalPoissonVAE_forward T M x lm lv batch_index y g'" for g g'
    by (simp add: LogNormalPoissonVAE_forward_def)
  have st: "snd (LogNormalPoissonVAE_forward T M x lm lv batch_index y g)
     = snd (LogNormalPoissonVAE_inference M x batch_index y 1 (manual_seed 42))" for g
    by (simp add: LogNormalPoissonVAE_forward_def Let_def split: prod.splits sum.splits)
  define gf where "gf = snd (LogNormalPoissonVAE_inference M x batch_index y 1 (manual_seed 42))"
  have "snd (LogNormalPoissonVAE_forward T M x lm lv batch_index y (Rng (Suc (seed gf)) 0)) \<noteq>
        Rng (Suc (seed gf)) 0"
    unfolding st gf_def [symmetric] by (cases gf) auto
  then show ?thesis using eq st by blast
qed

section \<open>Several samples under full covariance\<close>

lemma ex_encode_full_cov:
  "encode True True (ex_encoder_full 1) (ex_encoder 1) ex_x None 2 (Rng 0 0)
     = (Inl AssertionError, Rng 0 2)"
  by (simp add: encode_def ex_encoder_full_def ex_encoder_def ex_x_def manual_seed_def
      log_transform_def torch_log_def scalar_add_def t_map_def Let_def)

text \<open>
  C5, as the claim states it, fails in both of its parts. The assertion is not reached
  before any sampling: on the example model with full covariance and two samples the call
  raises \<open>AssertionError\<close>, but the two encoder passes have run first and the generator
  has moved on. And a call with \<open>n_samples = 1\<close> need not succeed: in the mode
  \<open>gene-batch\<close>, called as \<open>forward\<close> calls it by default (no \<open>batch_index\<close>), it ends
  with the \<open>AttributeError\<close> of \<open>one_hot\<close>, with or without full covariance.
\<close>

theorem assertion_before_any_sampling_counterexample:
  "fst (VAE_inference ex_extern (ex_vae ''gene'' ''zinb'' True) ex_x None None 2 (manual_seed 0))
     = Inl AssertionError
   \<and> snd (VAE_inference ex_extern (ex_vae ''gene'' ''zinb'' True) ex_x None None 2 (manual_seed 0))
     \<noteq> manual_seed 0
   \<and> fst (VAE_inference ex_extern (ex_vae ''gene-batch'' ''zinb'' False) ex_x None None 1
        (manual_seed 0))
     = Inl AttributeError
   \<and> fst (VAE_inference ex_extern (ex_vae ''gene-batch'' ''zinb'' True) ex_x None None 1
        (manual_seed 0))
     = Inl AttributeError"
proof -
  have "VAE_inference ex_extern (ex_vae ''gene'' ''zinb'' True) ex_x None None 2 (manual_seed 0)
      = (Inl AssertionError, Rng 0 2)"
    by (simp add: VAE_inference_def ex_vae_def ex_encode_full_cov manual_seed_def
        del: One_nat_def)
  moreover have "fst (VAE_inference ex_extern (ex_vae ''gene-batch'' ''zinb'' c) ex_x None None 1
        (manual_seed 0)) = Inl AttributeError" for c
    by (simp add: VAE_inference_def encode_single resolve_px_r_def ex_vae_def ex_extern_def
        bindE_def Let_def split: prod.splits)
  ultimately show ?thesis
    by (simp add: manual_seed_def)
qed

text \<open>
  C5, amended. With \<open>n_samples > 1\<close> on a model with full covariance, \<open>inference\<close>
  raises \<open>AssertionError\<close> once the two encoder passes have returned, which have produced
  the first sample of the latent and of the library size, and before the repeated sampling
  and the decoding: the generator is left as the second encoder pass left it. With
  \<open>n_samples = 1\<close> the assertion is not evaluated and the covariance flag has no
  influence on the outcome of the call, whether it returns or fails.
\<close>

theorem multi_sample_assertion:
  "(1 < n_samples \<and> z_full_cov M \<longrightarrow>
      VAE_inference T M x batch_index y n_samples g0 =
        (Inl AssertionError,
         snd (enc_forward (l_encoder M) (log_transform (log_variational M) x) []
                (snd (enc_forward (z_encoder M) (log_transform (log_variational M) x) [y] g0)))))
   \<and> (1 < n_samples \<and> lnp_z_full_cov L \<longrightarrow>
      LogNormalPoissonVAE_inference L x batch_index y n_samples g0 =
        (Inl AssertionError,
         snd (enc_forward (lnp_l_encoder L) (log_transform (lnp_log_variational L) x) []
                (snd (enc_forward (lnp_z_encoder L) (log_transform (lnp_log_variational L) x) [y] g0)))))
   \<and> VAE_inference T (M\<lparr>z_full_cov := c\<rparr>) x batch_index y 1 g0
       = VAE_inference T M x batch_index y 1 g0
   \<and> LogNormalPoissonVAE_inference (L\<lparr>lnp_z_full_cov := c\<rparr>) x batch_index y 1 g0
       = LogNormalPoissonVAE_inference L x batch_index y 1 g0"
proof (intro conjI impI)
  assume "1 < n_samples \<and> z_full_cov M"
  then show "VAE_inference T M x batch_index y n_samples g0 =
        (Inl AssertionError,
         snd (enc_forward (l_encoder M) (log_transform (log_variational M) x) []
                (snd (enc_forward (z_encoder M) (log_transform (log_variational M) x) [y] g0))))"
    by (simp add: VAE_inference_def encode_full_cov)
next
  assume "1 < n_samples \<and> lnp_z_full_cov L"
  then show "LogNormalPoissonVAE_inference L x batch_index y n_samples g0 =
        (Inl AssertionError,
         snd (enc_forward (lnp_l_encoder L) (log_transform (lnp_log_variational L) x) []
                (snd (enc_forward (lnp_z_encoder L) (log_transform (lnp_log_variational L) x) [y] g0))))"
    by (simp add: LogNormalPoissonVAE_inference_def encode_full_cov)
next
  show "VAE_inference T (M\<lparr>z_full_cov := c\<rparr>) x batch_index y 1 g0
       = VAE_inference T M x batch_index y 1 g0"
    by (simp add: VAE_inference_def encode_single resolve_px_r_def self_px_r_def Let_def
        split: prod.splits)
next
  show "LogNormalPoissonVAE_inference (L\<lparr>lnp_z_full_cov := c\<rparr>) x batch_index y 1 g0
       = LogNormalPoissonVAE_inference L x batch_index y 1 g0"
    by (simp add: LogNormalPoissonVAE_inference_def encode_single Let_def split: prod.splits)
qed

theorem multi_sample_assertion_witness:
  "VAE_inference ex_extern (ex_vae ''gene'' ''zinb'' True) ex_x None None 2 (manual_seed 0)
     = (Inl AssertionError, Rng 0 2)
   \<and> LogNormalPoissonVAE_inference (ex_lnp True) ex_x None None 2 (manual_seed 0)
     = (Inl AssertionError, Rng 0 2)"
  using multi_sample_assertion [of 2 "ex_vae ''gene'' ''zinb'' True" ex_extern ex_x None None
      "manual_seed 0" "ex_lnp True" True]
  by (simp add: ex_vae_def ex_lnp_def ex_encoder_full_def ex_encoder_def ex_x_def manual_seed_def
      log_transform_def torch_log_def scalar_add_def t_map_def Let_def)

section \<open>The dispersion\<close>

text \<open>
  C3. Whenever \<open>inference\<close> returns, the dispersion it returns is the exponential of
  the value resolved by mode: for \<open>gene-label\<close> it is \<open>F.linear(one_hot(y, n_labels),
  px_r)\<close>, for \<open>gene-batch\<close> it is \<open>F.linear(one_hot(batch_index, n_batch), px_r)\<close>, for
  \<open>gene\<close> it is the parameter \<open>px_r\<close> of the model, and for every other mode
  (\<open>gene-cell\<close>) it is the value that the decoder returned for this call. In
  \<open>MeanVarianceVAE\<close> it is the output of \<open>px_r_net\<close> on \<open>px_scale * library\<close>, viewed
  as a column and viewed back.
\<close>

theorem dispersion_by_mode:
  "(VAE_inference T M x batch_index y n g0 = (Inr out, g) \<longrightarrow>
      (dispersion M = ''gene-label'' \<longrightarrow>
         (\<exists>oh w r. one_hot T y (n_labels M) = Inr oh \<and> px_r M = Some w \<and> F_linear oh w = Inr r
            \<and> out_px_r out = torch_exp r))
      \<and> (dispersion M = ''gene-batch'' \<longrightarrow>
         (\<exists>oh w r. one_hot T batch_index (n_batch M) = Inr oh \<and> px_r M = Some w
            \<and> F_linear oh w = Inr r \<and> out_px_r out = torch_exp r))
      \<and> (dispersion M = ''gene'' \<longrightarrow>
         (\<exists>w. px_r M = Some w \<and> out_px_r out = torch_exp w))
      \<and> (dispersion M \<noteq> ''gene-label'' \<and> dispersion M \<noteq> ''gene-batch'' \<and> dispersion M \<noteq> ''gene''
           \<longrightarrow>
         out_px_r out = torch_exp (fst (snd (fst
           (dec_forward (decoder M) (dispersion M) (out_z out) (out_library out) [batch_index, y]
              (snd (encode (log_variational M) (z_full_cov M) (z_encoder M) (l_encoder M)
                      x y n g0))))))))
   \<and> (MeanVarianceVAE_inference T M' x batch_index y n g0 = (Inr out', g') \<longrightarrow>
        (\<exists>nb_mean r. t_mul (out_px_scale out') (out_library out') = Inr nb_mean
           \<and> px_r_net_forward (px_r_net M') (view_column nb_mean) = Inr r
           \<and> out_px_r out' = torch_exp (Tensor (shape nb_mean) (vals r))))"
proof (intro conjI impI)
  assume a: "VAE_inference T M x batch_index y n g0 = (Inr out, g)"
  {
    assume "dispersion M = ''gene-label''"
    with a show "\<exists>oh w r. one_hot T y (n_labels M) = Inr oh \<and> px_r M = Some w
        \<and> F_linear oh w = Inr r \<and> out_px_r out = torch_exp r"
      by (elim VAE_inference_Inr)
        (auto simp: resolve_px_r_def self_px_r_def bindE_Inr_iff split: option.splits)
  }
  {
    assume "dispersion M = ''gene-batch''"
    with a show "\<exists>oh w r. one_hot T batch_index (n_batch M) = Inr oh \<and> px_r M = Some w
        \<and> F_linear oh w = Inr r \<and> out_px_r out = torch_exp r"
      by (elim VAE_inference_Inr)
        (auto simp: resolve_px_r_def self_px_r_def bindE_Inr_iff split: option.splits)
  }
  {
    assume "dispersion M = ''gene''"
    with a show "\<exists>w. px_r M = Some w \<and> out_px_r out = torch_exp w"
      by (elim VAE_inference_Inr)
        (auto simp: resolve_px_r_def self_px_r_def bindE_Inr_iff split: option.splits)
  }
  {
    assume "dispersion M \<noteq> ''gene-label'' \<and> dispersion M \<noteq> ''gene-batch'' \<and> dispersion M \<noteq> ''gene''"
    with a show "out_px_r out = torch_exp (fst (snd (fst
           (dec_forward (decoder M) (dispersion M) (out_z out) (out_library out) [batch_index, y]
              (snd (encode (log_variational M) (z_full_cov M) (z_encoder M) (l_encoder M)
                      x y n g0))))))"
      by (elim VAE_inference_Inr) (auto simp: resolve_px_r_def)
  }
next
  assume "MeanVarianceVAE_inference T M' x batch_index y n g0 = (Inr out', g')"
  then show "\<exists>nb_mean r. t_mul (out_px_scale out') (out_library out') = Inr nb_mean
           \<and> px_r_net_forward (px_r_net M') (view_column nb_mean) = Inr r
           \<and> out_px_r out' = torch_exp (Tensor (shape nb_mean) (vals r))"
    by (elim MeanVarianceVAE_inference_Inr) auto
qed

theorem dispersion_by_mode_witness:
  "(\<exists>oh w r. one_hot ex_extern (Some (ex_col 0)) 1 = Inr oh
       \<and> px_r (ex_vae ''gene-label'' ''zinb'' False) = Some w \<and> F_linear oh w = Inr r
       \<and> Tensor [1, 1] [1] = torch_exp r)
   \<and> (\<exists>oh w r. one_hot ex_extern (Some (ex_col 0)) 1 = Inr oh
       \<and> px_r (ex_vae ''gene-batch'' ''zinb'' False) = Some w \<and> F_linear oh w = Inr r
       \<and> Tensor [1, 1] [1] = torch_exp r)
   \<and> (\<exists>w. px_r (ex_vae ''gene'' ''zinb'' False) = Some w \<and> Tensor [1] [1] = torch_exp w)
   \<and> Tensor [1, 1] [1] = torch_exp (fst (snd (fst
        (dec_forward (ex_decoder 1) ''gene-cell'' (Tensor [1, 1] [0]) (Tensor [1, 1] [0])
           [None, None] (Rng 0 2)))))
   \<and> (\<exists>nb_mean r. t_mul (Tensor [1, 1] [0]) (Tensor [1, 1] [0]) = Inr nb_mean
       \<and> px_r_net_forward (px_r_net ex_mv) (view_column nb_mean) = Inr r
       \<and> Tensor [1, 1] [1] = torch_exp (Tensor (shape nb_mean) (vals r)))"
proof -
  have enc: "snd (encode True False (ex_encoder 1) (ex_encoder 1) ex_x None 1 (manual_seed 0))
      = Rng 0 2"
    by (simp add: encode_single ex_defs tensor_defs Let_def)
  have sel: "dispersion (ex_vae d l c) = d" "n_labels (ex_vae d l c) = 1"
    "n_batch (ex_vae d l c) = 1" "log_variational (ex_vae d l c) = True"
    "z_full_cov (ex_vae d l c) = c" "l_encoder (ex_vae d l c) = ex_encoder 1"
    "z_encoder (ex_vae d l False) = ex_encoder 1" "decoder (ex_vae d l c) = ex_decoder 1"
    for d l c
    by (simp_all add: ex_vae_def)
  note vae = dispersion_by_mode [THEN conjunct1, THEN mp]
  note mv = dispersion_by_mode [THEN conjunct2, THEN mp]
  have 1: "\<exists>oh w r. one_hot ex_extern (Some (ex_col 0)) 1 = Inr oh
       \<and> px_r (ex_vae ''gene-label'' ''zinb'' False) = Some w \<and> F_linear oh w = Inr r
       \<and> Tensor [1, 1] [1] = torch_exp r"
    using vae [OF ex_inference_gene_label] by (simp add: sel ex_out_def del: One_nat_def)
  have 2: "\<exists>oh w r. one_hot ex_extern (Some (ex_col 0)) 1 = Inr oh
       \<and> px_r (ex_vae ''gene-batch'' ''zinb'' False) = Some w \<and> F_linear oh w = Inr r
       \<and> Tensor [1, 1] [1] = torch_exp r"
    using vae [OF ex_inference_gene_batch] by (simp add: sel ex_out_def del: One_nat_def)
  have 3: "\<exists>w. px_r (ex_vae ''gene'' ''zinb'' False) = Some w \<and> Tensor [1] [1] = torch_exp w"
    using vae [OF ex_inference_gene] by (simp add: sel ex_out_def del: One_nat_def)
  have 4: "Tensor [1, 1] [1] = torch_exp (fst (snd (fst
        (dec_forward (ex_decoder 1) ''gene-cell'' (Tensor [1, 1] [0]) (Tensor [1, 1] [0])
           [None, None] (Rng 0 2)))))"
    using vae [OF ex_inference_gene_cell] by (simp add: sel ex_out_def enc del: One_nat_def)
  have 5: "\<exists>nb_mean r. t_mul (Tensor [1, 1] [0]) (Tensor [1, 1] [0]) = Inr nb_mean
       \<and> px_r_net_forward (px_r_net ex_mv) (view_column nb_mean) = Inr r
       \<and> Tensor [1, 1] [1] = torch_exp (Tensor (shape nb_mean) (vals r))"
    using mv [OF ex_inference_mv] by (simp add: ex_out_def del: One_nat_def)
  from 1 2 3 4 5 show ?thesis by blast
qed




section \<open>What \<open>forward\<close> returns\<close>

text \<open>
  C1. \<open>forward\<close> returns a pair exactly when \<open>inference\<close> and every step after it
  succeed, and then the first component is the reconstruction loss plus the KL divergence
  of \<open>Normal(ql_m, sqrt(ql_v))\<close> from \<open>Normal(local_l_mean, sqrt(local_l_var))\<close> summed
  over dimension 1, and the second component is the KL divergence of the latent posterior
  from the prior of mean zero and unit scale (summed over dimension 1 when it has two
  dimensions). The latent KL is no summand of the first component. This holds for \<open>VAE\<close>
  and for \<open>LogNormalPoissonVAE\<close>, whose call of \<open>inference\<close> starts from seed 42. The
  sum of two well-formed tensors of one shape is the tensor of the sums of their entries.
\<close>

theorem forward_returns_loss_and_latent_kl:
  "(VAE_forward T M x lm lv batch_index y g0 = (Inr (loss, klz), g) \<longleftrightarrow>
      (\<exists>out qz pz kl_z ql pl kl_l kl_divergence_l reconst_loss.
         VAE_inference T M x batch_index y 1 g0 = (Inr out, g)
         \<and> enc_distrib (z_encoder M) (out_qz_m out) (out_qz_v out) = Inr qz
         \<and> enc_distrib (z_encoder M) (torch_zeros (n_latent M))
              (if z_full_cov M then torch_eye (n_latent M) else torch_ones (n_latent M)) = Inr pz
         \<and> kl T qz pz = Inr kl_z
         \<and> (if length (shape kl_z) = 2 then t_sum kl_z 1 else Inr kl_z) = Inr klz
         \<and> mk_Normal (out_ql_m out) (torch_sqrt (out_ql_v out)) = Inr ql
         \<and> mk_Normal lm (torch_sqrt lv) = Inr pl
         \<and> kl T ql pl = Inr kl_l
         \<and> t_sum kl_l 1 = Inr kl_divergence_l
         \<and> VAE_reconstruction_loss T M x (out_px_rate out) (out_px_r out) (out_px_dropout out)
              = Inr reconst_loss
         \<and> t_add reconst_loss kl_divergence_l = Inr loss))
   \<and> (LogNormalPoissonVAE_forward T L x lm lv batch_index y g0 = (Inr (loss', klz'), g') \<longleftrightarrow>
      (\<exists>px_rate qz_m qz_v z ql_m ql_v library qz pz kl_z ql pl kl_l kl_divergence_l reconst_loss.
         LogNormalPoissonVAE_inference L x batch_index y 1 (manual_seed 42)
           = (Inr (px_rate, qz_m, qz_v, z, ql_m, ql_v, library), g')
         \<and> enc_distrib (lnp_z_encoder L) qz_m qz_v = Inr qz
         \<and> enc_distrib (lnp_z_encoder L) (torch_zeros (lnp_n_latent L))
              (if lnp_z_full_cov L \<or> lnp_z_autoregressive L then torch_eye (lnp_n_latent L)
               else torch_ones (lnp_n_latent L)) = Inr pz
         \<and> kl T qz pz = Inr kl_z
         \<and> (if length (shape kl_z) = 2 then t_sum kl_z 1 else Inr kl_z) = Inr klz'
         \<and> mk_Normal ql_m (torch_sqrt ql_v) = Inr ql
         \<and> mk_Normal lm (torch_sqrt lv) = Inr pl
         \<and> kl T ql pl = Inr kl_l
         \<and> t_sum kl_l 1 = Inr kl_divergence_l
         \<and> LogNormalPoissonVAE_reconstruction_loss T x px_rate = Inr reconst_loss
         \<and> t_add reconst_loss kl_divergence_l = Inr loss'))
   \<and> (wf_tensor a \<and> wf_tensor b \<and> shape a = shape b \<longrightarrow>
        t_add a b = Inr (Tensor (shape a) (map (\<lambda>(u, v). u + v) (zip (vals a) (vals b)))))"
proof (intro conjI)
  show "VAE_forward T M x lm lv batch_index y g0 = (Inr (loss, klz), g) \<longleftrightarrow>
      (\<exists>out qz pz kl_z ql pl kl_l kl_divergence_l reconst_loss.
         VAE_inference T M x batch_index y 1 g0 = (Inr out, g)
         \<and> enc_distrib (z_encoder M) (out_qz_m out) (out_qz_v out) = Inr qz
         \<and> enc_distrib (z_encoder M) (torch_zeros (n_latent M))
              (if z_full_cov M then torch_eye (n_latent M) else torch_ones (n_latent M)) = Inr pz
         \<and> kl T qz pz = Inr kl_z
         \<and> (if length (shape kl_z) = 2 then t_sum kl_z 1 else Inr kl_z) = Inr klz
         \<and> mk_Normal (out_ql_m out) (torch_sqrt (out_ql_v out)) = Inr ql
         \<and> mk_Normal lm (torch_sqrt lv) = Inr pl
         \<and> kl T ql pl = Inr kl_l
         \<and> t_sum kl_l 1 = Inr kl_divergence_l
         \<and> VAE_reconstruction_loss T M x (out_px_rate out) (out_px_r out) (out_px_dropout out)
              = Inr reconst_loss
         \<and> t_add reconst_loss kl_divergence_l = Inr loss)"
    unfolding VAE_forward_Inr_iff forward_losses_Inr_iff by blast
next
  show "LogNormalPoissonVAE_forward T L x lm lv batch_index y g0 = (Inr (loss', klz'), g') \<longleftrightarrow>
      (\<exists>px_rate qz_m qz_v z ql_m ql_v library qz pz kl_z ql pl kl_l kl_divergence_l reconst_loss.
         LogNormalPoissonVAE_inference L x batch_index y 1 (manual_seed 42)
           = (Inr (px_rate, qz_m, qz_v, z, ql_m, ql_v, library), g')
         \<and> enc_distrib (lnp_z_encoder L) qz_m qz_v = Inr qz
         \<and> enc_distrib (lnp_z_encoder L) (torch_zeros (lnp_n_latent L))
              (if lnp_z_full_cov L \<or> lnp_z_autoregressive L then torch_eye (lnp_n_latent L)
               else torch_ones (lnp_n_latent L)) = Inr pz
         \<and> kl T qz pz = Inr kl_z
         \<and> (if length (shape kl_z) = 2 then t_sum kl_z 1 else Inr kl_z) = Inr klz'
         \<and> mk_Normal ql_m (torch_sqrt ql_v) = Inr ql
         \<and> mk_Normal lm (torch_sqrt lv) = Inr pl
         \<and> kl T ql pl = Inr kl_l
         \<and> t_sum kl_l 1 = Inr kl_divergence_l
         \<and> LogNormalPoissonVAE_reconstruction_loss T x px_rate = Inr reconst_loss
         \<and> t_add reconst_loss kl_divergence_l = Inr loss')"
    unfolding lnp_forward_Inr_iff
    by (auto simp: lnp_forward_losses_Inr_iff)
next
  show "wf_tensor a \<and> wf_tensor b \<and> shape a = shape b \<longrightarrow>
        t_add a b = Inr (Tensor (shape a) (map (\<lambda>(u, v). u + v) (zip (vals a) (vals b))))"
    by (simp add: t_add_def t_bin_same_shape)
qed

theorem forward_returns_loss_and_latent_kl_witness:
  "(\<exists>out reconst_loss kl_divergence_l.
      VAE_inference ex_extern (ex_vae ''gene'' ''zinb'' False) ex_x None None 1 (manual_seed 0)
        = (Inr out, Rng 0 2)
      \<and> VAE_reconstruction_loss ex_extern (ex_vae ''gene'' ''zinb'' False) ex_x
           (out_px_rate out) (out_px_r out) (out_px_dropout out) = Inr reconst_loss
      \<and> t_add reconst_loss kl_divergence_l = Inr (Tensor [1] [0]))
   \<and> (\<exists>px_rate reconst_loss kl_divergence_l.
      LogNormalPoissonVAE_reconstruction_loss ex_extern ex_x px_rate = Inr reconst_loss
      \<and> t_add reconst_loss kl_divergence_l = Inr (Tensor [1] [1]))
   \<and> t_add (Tensor [2] [1, 2]) (Tensor [2] [3, 4]) = Inr (Tensor [2] [4, 6])"
proof -
  note vae = forward_returns_loss_and_latent_kl [THEN conjunct1, THEN iffD1]
  note lnp = forward_returns_loss_and_latent_kl [THEN conjunct2, THEN conjunct1, THEN iffD1]
  note add = forward_returns_loss_and_latent_kl [THEN conjunct2, THEN conjunct2, THEN mp]
  have 1: "\<exists>out reconst_loss kl_divergence_l.
      VAE_inference ex_extern (ex_vae ''gene'' ''zinb'' False) ex_x None None 1 (manual_seed 0)
        = (Inr out, Rng 0 2)
      \<and> VAE_reconstruction_loss ex_extern (ex_vae ''gene'' ''zinb'' False) ex_x
           (out_px_rate out) (out_px_r out) (out_px_dropout out) = Inr reconst_loss
      \<and> t_add reconst_loss kl_divergence_l = Inr (Tensor [1] [0])"
    using vae [OF ex_forward_gene] by blast
  have 2: "\<exists>px_rate reconst_loss kl_divergence_l.
      LogNormalPoissonVAE_reconstruction_loss ex_extern ex_x px_rate = Inr reconst_loss
      \<and> t_add reconst_loss kl_divergence_l = Inr (Tensor [1] [1])"
    using lnp [OF ex_forward_lnp] by blast
  have 3: "t_add (Tensor [2] [1, 2]) (Tensor [2] [3, 4]) = Inr (Tensor [2] [4, 6])"
    using add [of "Tensor [2] [1, 2]" "Tensor [2] [3, 4]"] by (simp add: wf_tensor_def)
  from 1 2 3 show ?thesis by blast
qed

lemma ex2_inference:
  "VAE_inference ex_extern (ex_vae2 c) ex_x2 None None 1 (manual_seed 0)
     = (Inr (ex_out2 c), Rng 0 10)"
  by (simp add: VAE_inference_def encode_single resolve_px_r_def self_px_r_def ex_vae2_def
      ex_encoder_def ex_encoder_full_def ex_decoder_def ex_x2_def manual_seed_def
      log_transform_def torch_log_def scalar_add_def t_map_def torch_exp_def
      float32_underflow_def ex_out2_def Let_def)

lemma ex2_inference_lnp:
  "LogNormalPoissonVAE_inference (ex_lnp2 c) ex_x2 None None 1 (manual_seed 42)
     = (Inr (Tensor [2, 3] (replicate 6 1), out_qz_m (ex_out2 c), out_qz_v (ex_out2 c),
             out_z (ex_out2 c), out_ql_m (ex_out2 c), out_ql_v (ex_out2 c),
             out_library (ex_out2 c)), Rng 42 10)"
  by (simp add: LogNormalPoissonVAE_inference_def encode_single ex_lnp2_def
      ex_encoder_def ex_encoder_full_def ex_x2_def manual_seed_def
      log_transform_def torch_log_def scalar_add_def t_map_def ex_out2_def Let_def)

lemma indices_single: "indices [b] = map (\<lambda>i. [i]) [0..<b]"
  by (simp add: map_concat comp_def concat_map_singleton)

lemma t_sum_rows:
  assumes "shape t = [b, n]" "d = 1 \<or> d = - 1"
  shows "t_sum t d = Inr (Tensor [b] (map (\<lambda>i. sum_list (map (\<lambda>j. t_at t [i, j]) [0..<n])) [0..<b]))"
  using assms
  by (auto simp: t_sum_def reduce_dim_def norm_dim_def indices_single comp_def)

lemma t_add_cells:
  assumes "shape a = [b]" "shape c = [b]"
  shows "t_add a c = Inr (Tensor [b] (map (\<lambda>i. t_atb a [i] + t_atb c [i]) [0..<b]))"
  using assms by (simp add: t_add_def t_bin_def indices_single comp_def)


lemma kl_l_cells:
  assumes "shape ql_m = [b, 1]" "shape ql_v = [b, 1]" "shape lm = [b, 1]" "shape lv = [b, 1]"
  shows "\<exists>ql pl k.
    mk_Normal ql_m (torch_sqrt ql_v) = Inr ql \<and> mk_Normal lm (torch_sqrt lv) = Inr pl
    \<and> kl T ql pl = Inr k \<and> shape k = [b, 1]"
proof -
  have 1: "mk_Normal ql_m (torch_sqrt ql_v)
             = Inr (Normal (expand_to [b, 1] ql_m) (expand_to [b, 1] (torch_sqrt ql_v)))"
    using assms by (simp add: mk_Normal_same)
  have 2: "mk_Normal lm (torch_sqrt lv)
             = Inr (Normal (expand_to [b, 1] lm) (expand_to [b, 1] (torch_sqrt lv)))"
    using assms by (simp add: mk_Normal_same)
  have "broadcast_shapes (shape (expand_to [b, 1] ql_m)) (shape (expand_to [b, 1] lm))
          = Some [b, 1]"
    by simp
  from kl_Normal_shape [OF this]
  obtain k where "kl T (Normal (expand_to [b, 1] ql_m) (expand_to [b, 1] (torch_sqrt ql_v)))
                         (Normal (expand_to [b, 1] lm) (expand_to [b, 1] (torch_sqrt lv))) = Inr k"
    "shape k = [b, 1]"
    by blast
  then show ?thesis using 1 2 by blast
qed

lemma kl_z_cells:
  assumes "latent_shapes b n qz pz"
  shows "\<exists>k r. kl T qz pz = Inr k
     \<and> (if length (shape k) = 2 then t_sum k 1 else Inr k) = Inr r
     \<and> ((\<exists>loc scale. qz = Normal loc scale) \<and> shape k = [b, n]
           \<and> r = Tensor [b] (map (\<lambda>i. sum_list (map (\<lambda>j. t_at k [i, j]) [0..<n])) [0..<b])
         \<or> (\<exists>loc cov. qz = MultivariateNormal loc cov) \<and> shape k = [b] \<and> r = k)"
proof (cases qz)
  case (Normal q_loc q_scale)
  then obtain p_loc p_scale where pz: "pz = Normal p_loc p_scale"
    and sh: "shape q_loc = [b, n]" "shape p_loc = [n]"
    using assms by (auto simp: latent_shapes_def split: distribution.splits)
  have "broadcast_shapes (shape q_loc) (shape p_loc) = Some [b, n]"
    by (simp add: sh)
  from kl_Normal_shape [OF this]
  obtain k where k: "kl T (Normal q_loc q_scale) (Normal p_loc p_scale) = Inr k" "shape k = [b, n]"
    by blast
  with t_sum_rows [OF k(2), of 1] show ?thesis
    using Normal pz by simp
next
  case (MultivariateNormal q_loc q_cov)
  then obtain p_loc p_cov where pz: "pz = MultivariateNormal p_loc p_cov"
    and sh: "shape q_loc = [b, n]" "shape q_cov = [b, n, n]" "shape p_loc = [n]"
      "shape p_cov = [n, n]"
    using assms by (auto simp: latent_shapes_def split: distribution.splits)
  from kl_MVN_shape [OF sh]
  obtain k where "kl T (MultivariateNormal q_loc q_cov) (MultivariateNormal p_loc p_cov) = Inr k"
    "shape k = [b]"
    by blast
  then show ?thesis using MultivariateNormal pz by simp
next
  case (Poisson rate)
  then show ?thesis using assms by (simp add: latent_shapes_def)
qed

lemma lnp_reconstruction_loss_cells:
  assumes "shape x = [b, n_input]" "shape px_rate = [b, n_input]"
  shows "\<exists>lp. log_prob T (Poisson px_rate) x = Inr lp \<and> shape lp = [b, n_input]
     \<and> LogNormalPoissonVAE_reconstruction_loss T x px_rate
         = Inr (Tensor [b]
             (map (\<lambda>i. sum_list (map (\<lambda>j. t_at (t_neg lp) [i, j]) [0..<n_input])) [0..<b]))"
proof -
  have "broadcast_shapes (shape px_rate) (shape x) = Some [b, n_input]"
    using assms by simp
  from log_prob_Poisson_shape [OF this]
  obtain lp where lp: "log_prob T (Poisson px_rate) x = Inr lp" "shape lp = [b, n_input]"
    by blast
  have "shape (t_neg lp) = [b, n_input]" using lp by simp
  from t_sum_rows [OF this, of "- 1"] lp show ?thesis
    by (simp add: LogNormalPoissonVAE_reconstruction_loss_def tensor_dim_def)
qed

lemma ex_vae2_sel [simp]:
  "n_latent (ex_vae2 c) = 4" "reconstruction_loss (ex_vae2 c) = ''zinb''"
  "z_full_cov (ex_vae2 c) = c"
  "z_encoder (ex_vae2 c) = (if c then ex_encoder_full 4 else ex_encoder 4)"
  by (simp_all add: ex_vae2_def)

lemma ex_lnp2_sel [simp]:
  "lnp_n_latent (ex_lnp2 c) = 4" "lnp_z_full_cov (ex_lnp2 c) = c"
  "lnp_z_autoregressive (ex_lnp2 c) = False"
  "lnp_z_encoder (ex_lnp2 c) = (if c then ex_encoder_full 4 else ex_encoder 4)"
  by (simp_all add: ex_lnp2_def)

lemma ex2_shapes [simp]:
  "shape ex_x2 = [2, 3]" "shape ex_lm2 = [2, 1]" "shape ex_lv2 = [2, 1]"
  "shape (out_ql_m (ex_out2 c)) = [2, 1]" "shape (out_ql_v (ex_out2 c)) = [2, 1]"
  "shape (out_qz_m (ex_out2 c)) = [2, 4]"
  "shape (out_qz_v (ex_out2 c)) = (if c then [2, 4, 4] else [2, 4])"
  by (simp_all add: ex_x2_def ex_lm2_def ex_lv2_def ex_out2_def)

lemma upt_small: "[0..<2] = [0, 1]" "[0..<3] = [0, 1, 2]" "[0..<4] = [0, 1, 2, 3]" "[0..<1] = [0]"
  by (simp_all add: upt_rec)

lemma replicate_small: "replicate 8 x = [x,x,x,x,x,x,x,x]" "replicate 6 x = [x,x,x,x,x,x]"
  "replicate 4 x = [x,x,x,x]" "replicate 2 x = [x,x]"
  by (simp_all add: numeral_eq_Suc)

lemma ex2_losses:
  "forward_losses ex_extern (ex_vae2 False) ex_x2 ex_lm2 ex_lv2 (ex_out2 False)
   = Inr (Tensor [2] [1 / 2, 2], Tensor [2] [0, 0])"
  by (simp add: forward_losses_def VAE_get_prior_params_def VAE_reconstruction_loss_def ex_out2_def
      ex_vae2_def ex_x2_def ex_lm2_def ex_lv2_def ex_extern_def ex_encoder_def
      torch_zeros_def torch_ones_def t_sum_def reduce_dim_def norm_dim_def
      tensor_defs dist_defs upt_small replicate_small Let_def)

lemma ex2_losses_full:
  "forward_losses ex_extern (ex_vae2 True) ex_x2 ex_lm2 ex_lv2 (ex_out2 True)
   = Inr (Tensor [2] [1 / 2, 2], Tensor [2] [0, 0])"
  by (simp add: forward_losses_def VAE_get_prior_params_def VAE_reconstruction_loss_def ex_out2_def
      ex_vae2_def ex_x2_def ex_lm2_def ex_lv2_def ex_extern_def ex_encoder_def ex_encoder_full_def
      torch_zeros_def torch_ones_def torch_eye_def t_sum_def reduce_dim_def norm_dim_def
      mvn_batch_shape_def
      tensor_defs dist_defs upt_small replicate_small Let_def)

lemma ex2_losses_lnp:
  "lnp_forward_losses ex_extern (ex_lnp2 False) ex_x2 ex_lm2 ex_lv2
     (Tensor [2, 3] (replicate 6 1), out_qz_m (ex_out2 False), out_qz_v (ex_out2 False),
      out_z (ex_out2 False), out_ql_m (ex_out2 False), out_ql_v (ex_out2 False),
      out_library (ex_out2 False))
   = Inr (Tensor [2] [7 / 2, 5], Tensor [2] [0, 0])"
  by (simp add: lnp_forward_losses_def LogNormalPoissonVAE_get_prior_params_def
      LogNormalPoissonVAE_reconstruction_loss_def ex_out2_def tensor_dim_def
      ex_lnp2_def ex_x2_def ex_lm2_def ex_lv2_def ex_extern_def ex_encoder_def
      torch_zeros_def torch_ones_def t_sum_def reduce_dim_def norm_dim_def
      tensor_defs dist_defs upt_small replicate_small Let_def)

lemma ex2_forward:
  "VAE_forward ex_extern (ex_vae2 False) ex_x2 ex_lm2 ex_lv2 None None (manual_seed 0)
   = (Inr (Tensor [2] [1 / 2, 2], Tensor [2] [0, 0]), Rng 0 10)"
  by (simp add: VAE_forward_def ex2_inference ex2_losses del: One_nat_def)

lemma ex2_forward_full:
  "VAE_forward ex_extern (ex_vae2 True) ex_x2 ex_lm2 ex_lv2 None None (manual_seed 0)
   = (Inr (Tensor [2] [1 / 2, 2], Tensor [2] [0, 0]), Rng 0 10)"
  by (simp add: VAE_forward_def ex2_inference ex2_losses_full del: One_nat_def)

lemma ex2_forward_lnp:
  "LogNormalPoissonVAE_forward ex_extern (ex_lnp2 False) ex_x2 ex_lm2 ex_lv2 None None g
   = (Inr (Tensor [2] [7 / 2, 5], Tensor [2] [0, 0]), Rng 42 10)"
  by (simp add: LogNormalPoissonVAE_forward_def ex2_inference_lnp ex2_losses_lnp
      del: One_nat_def)

text \<open>
  C2. On a batch \<open>x\<close> of shape \<open>(b, n_input)\<close>, with library moments and priors of shape
  \<open>(b, 1)\<close> and a latent posterior and prior of the shapes of \<open>b\<close> cells (elementwise or
  multivariate normal), \<open>forward\<close> returns, and every term is reduced to one value per
  cell before the terms are combined. The KL divergence of the library size has shape
  \<open>(b, 1)\<close> and \<open>forward\<close> sums it over dimension 1: entry \<open>i\<close> of the sum is the sum of
  row \<open>i\<close>. The KL divergence of the latent has shape \<open>(b, n_latent)\<close> for elementwise
  normals and is summed over dimension 1 in the same way, or has shape \<open>(b)\<close> for
  multivariate normals and is returned as it is. The reconstruction loss has shape
  \<open>(b)\<close>; for \<open>LogNormalPoissonVAE\<close> it is the sum over the genes of row \<open>i\<close> of the
  negated log-probability, which has the shape of \<open>x\<close>; for \<open>VAE\<close> it is the negated
  value of \<open>log_zinb_positive\<close> or \<open>log_nb_positive\<close>, which are defined in another
  module and are taken to reduce the gene dimension of \<open>x\<close>. Entry \<open>i\<close> of the first
  tensor returned is the sum of entry \<open>i\<close> of the reconstruction loss and entry \<open>i\<close> of
  the summed library KL; both tensors returned have shape \<open>(b)\<close>.
\<close>

theorem forward_per_cell:
  "(VAE_inference T M x batch_index y 1 g0 = (Inr out, g)
    \<and> shape x = [b, n_input]
    \<and> (reconstruction_loss M = ''zinb'' \<or> reconstruction_loss M = ''nb'')
    \<and> shape (log_zinb_positive T x (out_px_rate out) (out_px_r out) (out_px_dropout out))
         = butlast (shape x)
    \<and> shape (log_nb_positive T x (out_px_rate out) (out_px_r out)) = butlast (shape x)
    \<and> shape (out_ql_m out) = [b, 1] \<and> shape (out_ql_v out) = [b, 1]
    \<and> shape lm = [b, 1] \<and> shape lv = [b, 1]
    \<and> enc_distrib (z_encoder M) (out_qz_m out) (out_qz_v out) = Inr qz
    \<and> enc_distrib (z_encoder M) (fst (VAE_get_prior_params M)) (snd (VAE_get_prior_params M))
         = Inr pz
    \<and> latent_shapes b (n_latent M) qz pz
    \<longrightarrow> (\<exists>ql pl kl_l kl_divergence_l kl_z reconst_loss loss klz.
           mk_Normal (out_ql_m out) (torch_sqrt (out_ql_v out)) = Inr ql
           \<and> mk_Normal lm (torch_sqrt lv) = Inr pl
           \<and> kl T ql pl = Inr kl_l \<and> shape kl_l = [b, 1]
           \<and> t_sum kl_l 1 = Inr kl_divergence_l
           \<and> kl_divergence_l
               = Tensor [b] (map (\<lambda>i. sum_list (map (\<lambda>j. t_at kl_l [i, j]) [0..<1])) [0..<b])
           \<and> kl T qz pz = Inr kl_z
           \<and> (if length (shape kl_z) = 2 then t_sum kl_z 1 else Inr kl_z) = Inr klz
           \<and> ((\<exists>loc scale. qz = Normal loc scale) \<and> shape kl_z = [b, n_latent M]
                 \<and> klz = Tensor [b]
                     (map (\<lambda>i. sum_list (map (\<lambda>j. t_at kl_z [i, j]) [0..<n_latent M])) [0..<b])
               \<or> (\<exists>loc cov. qz = MultivariateNormal loc cov) \<and> shape kl_z = [b] \<and> klz = kl_z)
           \<and> VAE_reconstruction_loss T M x (out_px_rate out) (out_px_r out) (out_px_dropout out)
               = Inr reconst_loss
           \<and> shape reconst_loss = [b]
           \<and> t_add reconst_loss kl_divergence_l = Inr loss
           \<and> loss = Tensor [b]
               (map (\<lambda>i. t_atb reconst_loss [i] + t_atb kl_divergence_l [i]) [0..<b])
           \<and> VAE_forward T M x lm lv batch_index y g0 = (Inr (loss, klz), g)
           \<and> shape loss = [b] \<and> shape klz = [b]))
   \<and> (LogNormalPoissonVAE_inference L x batch_index y 1 (manual_seed 42)
         = (Inr (px_rate, qz_m, qz_v, z, ql_m, ql_v, library), g')
    \<and> shape x = [b, n_input] \<and> shape px_rate = [b, n_input]
    \<and> shape ql_m = [b, 1] \<and> shape ql_v = [b, 1]
    \<and> shape lm = [b, 1] \<and> shape lv = [b, 1]
    \<and> enc_distrib (lnp_z_encoder L) qz_m qz_v = Inr qz'
    \<and> enc_distrib (lnp_z_encoder L) (fst (LogNormalPoissonVAE_get_prior_params L))
         (snd (LogNormalPoissonVAE_get_prior_params L)) = Inr pz'
    \<and> latent_shapes b (lnp_n_latent L) qz' pz'
    \<longrightarrow> (\<exists>ql pl kl_l kl_divergence_l kl_z lp reconst_loss loss klz.
           mk_Normal ql_m (torch_sqrt ql_v) = Inr ql
           \<and> mk_Normal lm (torch_sqrt lv) = Inr pl
           \<and> kl T ql pl = Inr kl_l \<and> shape kl_l = [b, 1]
           \<and> t_sum kl_l 1 = Inr kl_divergence_l
           \<and> kl_divergence_l
               = Tensor [b] (map (\<lambda>i. sum_list (map (\<lambda>j. t_at kl_l [i, j]) [0..<1])) [0..<b])
           \<and> kl T qz' pz' = Inr kl_z
           \<and> (if length (shape kl_z) = 2 then t_sum kl_z 1 else Inr kl_z) = Inr klz
           \<and> ((\<exists>loc scale. qz' = Normal loc scale) \<and> shape kl_z = [b, lnp_n_latent L]
                 \<and> klz = Tensor [b]
                     (map (\<lambda>i. sum_list (map (\<lambda>j. t_at kl_z [i, j]) [0..<lnp_n_latent L])) [0..<b])
               \<or> (\<exists>loc cov. qz' = MultivariateNormal loc cov) \<and> shape kl_z = [b] \<and> klz = kl_z)
           \<and> log_prob T (Poisson px_rate) x = Inr lp \<and> shape lp = [b, n_input]
           \<and> LogNormalPoissonVAE_reconstruction_loss T x px_rate = Inr reconst_loss
           \<and> reconst_loss = Tensor [b]
               (map (\<lambda>i. sum_list (map (\<lambda>j. t_at (t_neg lp) [i, j]) [0..<n_input])) [0..<b])
           \<and> t_add reconst_loss kl_divergence_l = Inr loss
           \<and> loss = Tensor [b]
               (map (\<lambda>i. t_atb reconst_loss [i] + t_atb kl_divergence_l [i]) [0..<b])
           \<and> LogNormalPoissonVAE_forward T L x lm lv batch_index y g0 = (Inr (loss, klz), g')
           \<and> shape loss = [b] \<and> shape klz = [b]))"
proof (intro conjI impI; elim conjE)
  assume inf: "VAE_inference T M x batch_index y 1 g0 = (Inr out, g)"
    and x: "shape x = [b, n_input]"
    and rl: "reconstruction_loss M = ''zinb'' \<or> reconstruction_loss M = ''nb''"
    and ll': "shape (log_zinb_positive T x (out_px_rate out) (out_px_r out) (out_px_dropout out))
                = butlast (shape x)"
      "shape (log_nb_positive T x (out_px_rate out) (out_px_r out)) = butlast (shape x)"
    and l: "shape (out_ql_m out) = [b, 1]" "shape (out_ql_v out) = [b, 1]"
      "shape lm = [b, 1]" "shape lv = [b, 1]"
    and qz: "enc_distrib (z_encoder M) (out_qz_m out) (out_qz_v out) = Inr qz"
    and pz: "enc_distrib (z_encoder M) (fst (VAE_get_prior_params M))
               (snd (VAE_get_prior_params M)) = Inr pz"
    and lat: "latent_shapes b (n_latent M) qz pz"
  define rows where "rows k n = Tensor [b] (map (\<lambda>i. sum_list (map (\<lambda>j. t_at k [i, j]) [0..<n])) [0..<b])"
    for k n
  have ll: "shape (log_zinb_positive T x (out_px_rate out) (out_px_r out) (out_px_dropout out)) = [b]"
    "shape (log_nb_positive T x (out_px_rate out) (out_px_r out)) = [b]"
    using ll' x by simp_all
  obtain kl_z klz where kz: "kl T qz pz = Inr kl_z"
    "(if length (shape kl_z) = 2 then t_sum kl_z 1 else Inr kl_z) = Inr klz"
    and kzc: "(\<exists>loc scale. qz = Normal loc scale) \<and> shape kl_z = [b, n_latent M]
                 \<and> klz = rows kl_z (n_latent M)
               \<or> (\<exists>loc cov. qz = MultivariateNormal loc cov) \<and> shape kl_z = [b] \<and> klz = kl_z"
    using kl_z_cells [OF lat, of T] unfolding rows_def by blast
  from kzc have kzs: "shape klz = [b]"
    by (auto simp: rows_def)
  obtain ql pl kl_l where kl:
    "mk_Normal (out_ql_m out) (torch_sqrt (out_ql_v out)) = Inr ql"
    "mk_Normal lm (torch_sqrt lv) = Inr pl" "kl T ql pl = Inr kl_l"
    "shape kl_l = [b, 1]"
    using kl_l_cells [OF l] by blast
  have ks: "t_sum kl_l 1 = Inr (rows kl_l 1)"
    using t_sum_rows [OF kl(4), of 1] by (simp add: rows_def)
  have kss: "shape (rows kl_l 1) = [b]"
    by (simp add: rows_def)
  obtain reconst_loss where r:
    "VAE_reconstruction_loss T M x (out_px_rate out) (out_px_r out) (out_px_dropout out)
       = Inr reconst_loss" "shape reconst_loss = [b]"
    using reconstruction_loss_shape [OF rl ll] by blast
  define loss where
    "loss = Tensor [b] (map (\<lambda>i. t_atb reconst_loss [i] + t_atb (rows kl_l 1) [i]) [0..<b])"
  have loss: "t_add reconst_loss (rows kl_l 1) = Inr loss" "shape loss = [b]"
    using t_add_cells [OF r(2) kss] by (simp_all add: loss_def)
  have "forward_losses T M x lm lv out = Inr (loss, klz)"
    unfolding forward_losses_Inr_iff
    using qz pz kz kl ks r loss by (auto simp: VAE_get_prior_params_def)
  then have fw: "VAE_forward T M x lm lv batch_index y g0 = (Inr (loss, klz), g)"
    using inf by (simp add: VAE_forward_Inr_iff)
  show "\<exists>ql pl kl_l kl_divergence_l kl_z reconst_loss loss klz.
           mk_Normal (out_ql_m out) (torch_sqrt (out_ql_v out)) = Inr ql
           \<and> mk_Normal lm (torch_sqrt lv) = Inr pl
           \<and> kl T ql pl = Inr kl_l \<and> shape kl_l = [b, 1]
           \<and> t_sum kl_l 1 = Inr kl_divergence_l
           \<and> kl_divergence_l
               = Tensor [b] (map (\<lambda>i. sum_list (map (\<lambda>j. t_at kl_l [i, j]) [0..<1])) [0..<b])
           \<and> kl T qz pz = Inr kl_z
           \<and> (if length (shape kl_z) = 2 then t_sum kl_z 1 else Inr kl_z) = Inr klz
           \<and> ((\<exists>loc scale. qz = Normal loc scale) \<and> shape kl_z = [b, n_latent M]
                 \<and> klz = Tensor [b]
                     (map (\<lambda>i. sum_list (map (\<lambda>j. t_at kl_z [i, j]) [0..<n_latent M])) [0..<b])
               \<or> (\<exists>loc cov. qz = MultivariateNormal loc cov) \<and> shape kl_z = [b] \<and> klz = kl_z)
           \<and> VAE_reconstruction_loss T M x (out_px_rate out) (out_px_r out) (out_px_dropout out)
               = Inr reconst_loss
           \<and> shape reconst_loss = [b]
           \<and> t_add reconst_loss kl_divergence_l = Inr loss
           \<and> loss = Tensor [b]
               (map (\<lambda>i. t_atb reconst_loss [i] + t_atb kl_divergence_l [i]) [0..<b])
           \<and> VAE_forward T M x lm lv batch_index y g0 = (Inr (loss, klz), g)
           \<and> shape loss = [b] \<and> shape klz = [b]"
    apply (rule exI [of _ ql], rule exI [of _ pl], rule exI [of _ kl_l],
        rule exI [of _ "rows kl_l 1"], rule exI [of _ kl_z], rule exI [of _ reconst_loss],
        rule exI [of _ loss], rule exI [of _ klz])
    using kl ks kz kzc r loss fw kzs
    unfolding rows_def [symmetric]
    apply (intro conjI)
                    apply (simp_all add: rows_def loss_def)
    done
next
  assume inf: "LogNormalPoissonVAE_inference L x batch_index y 1 (manual_seed 42)
         = (Inr (px_rate, qz_m, qz_v, z, ql_m, ql_v, library), g')"
    and x: "shape x = [b, n_input]" "shape px_rate = [b, n_input]"
    and l: "shape ql_m = [b, 1]" "shape ql_v = [b, 1]" "shape lm = [b, 1]" "shape lv = [b, 1]"
    and qz: "enc_distrib (lnp_z_encoder L) qz_m qz_v = Inr qz'"
    and pz: "enc_distrib (lnp_z_encoder L) (fst (LogNormalPoissonVAE_get_prior_params L))
         (snd (LogNormalPoissonVAE_get_prior_params L)) = Inr pz'"
    and lat: "latent_shapes b (lnp_n_latent L) qz' pz'"
  define rows where "rows k n = Tensor [b] (map (\<lambda>i. sum_list (map (\<lambda>j. t_at k [i, j]) [0..<n])) [0..<b])"
    for k n
  obtain kl_z klz where kz: "kl T qz' pz' = Inr kl_z"
    "(if length (shape kl_z) = 2 then t_sum kl_z 1 else Inr kl_z) = Inr klz"
    and kzc: "(\<exists>loc scale. qz' = Normal loc scale) \<and> shape kl_z = [b, lnp_n_latent L]
                 \<and> klz = rows kl_z (lnp_n_latent L)
               \<or> (\<exists>loc cov. qz' = MultivariateNormal loc cov) \<and> shape kl_z = [b] \<and> klz = kl_z"
    using kl_z_cells [OF lat, of T] unfolding rows_def by blast
  from kzc have kzs: "shape klz = [b]"
    by (auto simp: rows_def)
  obtain ql pl kl_l where kl:
    "mk_Normal ql_m (torch_sqrt ql_v) = Inr ql"
    "mk_Normal lm (torch_sqrt lv) = Inr pl" "kl T ql pl = Inr kl_l"
    "shape kl_l = [b, 1]"
    using kl_l_cells [OF l] by blast
  have ks: "t_sum kl_l 1 = Inr (rows kl_l 1)"
    using t_sum_rows [OF kl(4), of 1] by (simp add: rows_def)
  have kss: "shape (rows kl_l 1) = [b]"
    by (simp add: rows_def)
  obtain lp where lp: "log_prob T (Poisson px_rate) x = Inr lp" "shape lp = [b, n_input]"
    and r: "LogNormalPoissonVAE_reconstruction_loss T x px_rate = Inr (rows (t_neg lp) n_input)"
    using lnp_reconstruction_loss_cells [OF x, of T] unfolding rows_def by blast
  have rs: "shape (rows (t_neg lp) n_input) = [b]"
    by (simp add: rows_def)
  define loss where
    "loss = Tensor [b] (map (\<lambda>i. t_atb (rows (t_neg lp) n_input) [i] + t_atb (rows kl_l 1) [i]) [0..<b])"
  have loss: "t_add (rows (t_neg lp) n_input) (rows kl_l 1) = Inr loss" "shape loss = [b]"
    using t_add_cells [OF rs kss] by (simp_all add: loss_def)
  have "lnp_forward_losses T L x lm lv (px_rate, qz_m, qz_v, z, ql_m, ql_v, library)
          = Inr (loss, klz)"
    unfolding lnp_forward_losses_Inr_iff
    using qz pz kz kl ks r loss by (auto simp: LogNormalPoissonVAE_get_prior_params_def)
  then have fw: "LogNormalPoissonVAE_forward T L x lm lv batch_index y g0 = (Inr (loss, klz), g')"
    using inf by (simp add: lnp_forward_Inr_iff)
  show "\<exists>ql pl kl_l kl_divergence_l kl_z lp reconst_loss loss klz.
           mk_Normal ql_m (torch_sqrt ql_v) = Inr ql
           \<and> mk_Normal lm (torch_sqrt lv) = Inr pl
           \<and> kl T ql pl = Inr kl_l \<and> shape kl_l = [b, 1]
           \<and> t_sum kl_l 1 = Inr kl_divergence_l
           \<and> kl_divergence_l
               = Tensor [b] (map (\<lambda>i. sum_list (map (\<lambda>j. t_at kl_l [i, j]) [0..<1])) [0..<b])
           \<and> kl T qz' pz' = Inr kl_z
           \<and> (if length (shape kl_z) = 2 then t_sum kl_z 1 else Inr kl_z) = Inr klz
           \<and> ((\<exists>loc scale. qz' = Normal loc scale) \<and> shape kl_z = [b, lnp_n_latent L]
                 \<and> klz = Tensor [b]
                     (map (\<lambda>i. sum_list (map (\<lambda>j. t_at kl_z [i, j]) [0..<lnp_n_latent L])) [0..<b])
               \<or> (\<exists>loc cov. qz' = MultivariateNormal loc cov) \<and> shape kl_z = [b] \<and> klz = kl_z)
           \<and> log_prob T (Poisson px_rate) x = Inr lp \<and> shape lp = [b, n_input]
           \<and> LogNormalPoissonVAE_reconstruction_loss T x px_rate = Inr reconst_loss
           \<and> reconst_loss = Tensor [b]
               (map (\<lambda>i. sum_list (map (\<lambda>j. t_at (t_neg lp) [i, j]) [0..<n_input])) [0..<b])
           \<and> t_add reconst_loss kl_divergence_l = Inr loss
           \<and> loss = Tensor [b]
               (map (\<lambda>i. t_atb reconst_loss [i] + t_atb kl_divergence_l [i]) [0..<b])
           \<and> LogNormalPoissonVAE_forward T L x lm lv batch_index y g0 = (Inr (loss, klz), g')
           \<and> shape loss = [b] \<and> shape klz = [b]"
    apply (rule exI [of _ ql], rule exI [of _ pl], rule exI [of _ kl_l],
        rule exI [of _ "rows kl_l 1"], rule exI [of _ kl_z], rule exI [of _ lp],
        rule exI [of _ "rows (t_neg lp) n_input"],
        rule exI [of _ loss], rule exI [of _ klz])
    using kl ks kz kzc r lp loss fw kzs
    apply (intro conjI)
                    apply (simp_all add: rows_def loss_def)
    done
qed


theorem forward_per_cell_witness:
  "VAE_forward ex_extern (ex_vae2 False) ex_x2 ex_lm2 ex_lv2 None None (manual_seed 0)
     = (Inr (Tensor [2] [1 / 2, 2], Tensor [2] [0, 0]), Rng 0 10)
   \<and> VAE_forward ex_extern (ex_vae2 True) ex_x2 ex_lm2 ex_lv2 None None (manual_seed 0)
     = (Inr (Tensor [2] [1 / 2, 2], Tensor [2] [0, 0]), Rng 0 10)
   \<and> LogNormalPoissonVAE_forward ex_extern (ex_lnp2 False) ex_x2 ex_lm2 ex_lv2 None None
       (manual_seed 0)
     = (Inr (Tensor [2] [7 / 2, 5], Tensor [2] [0, 0]), Rng 42 10)
   \<and> (\<exists>loss klz. VAE_forward ex_extern (ex_vae2 False) ex_x2 ex_lm2 ex_lv2 None None
       (manual_seed 0) = (Inr (loss, klz), Rng 0 10)
      \<and> shape loss = [2] \<and> shape klz = [2])
   \<and> (\<exists>loss klz. VAE_forward ex_extern (ex_vae2 True) ex_x2 ex_lm2 ex_lv2 None None
       (manual_seed 0) = (Inr (loss, klz), Rng 0 10)
      \<and> shape loss = [2] \<and> shape klz = [2])
   \<and> (\<exists>loss klz. LogNormalPoissonVAE_forward ex_extern (ex_lnp2 False) ex_x2 ex_lm2 ex_lv2
       None None (manual_seed 0) = (Inr (loss, klz), Rng 42 10)
      \<and> shape loss = [2] \<and> shape klz = [2])"
proof -
  have 1: "\<exists>loss klz. VAE_forward ex_extern (ex_vae2 False) ex_x2 ex_lm2 ex_lv2 None None
       (manual_seed 0) = (Inr (loss, klz), Rng 0 10)
      \<and> shape loss = [2] \<and> shape klz = [2]"
    apply (rule exE [OF forward_per_cell [where out = "ex_out2 False" and n_input = 3
          and T = ex_extern and M = "ex_vae2 False" and x = ex_x2
          and lm = ex_lm2 and lv = ex_lv2 and batch_index = None and y = None
          and ?g0.0 = "manual_seed 0" and g = "Rng 0 10" and b = 2
          and qz = "Normal (expand_to [2, 4] (out_qz_m (ex_out2 False)))
                      (expand_to [2, 4] (torch_sqrt (out_qz_v (ex_out2 False))))"
          and pz = "Normal (expand_to [4] (torch_zeros 4))
                      (expand_to [4] (torch_sqrt (torch_ones 4)))",
          THEN conjunct1, THEN mp]])
     apply (simp add: ex2_inference ex_distrib_diag mk_Normal_same VAE_get_prior_params_def
        latent_shapes_def torch_zeros_def torch_ones_def del: One_nat_def)
    apply blast
    done
  have 2: "\<exists>loss klz. VAE_forward ex_extern (ex_vae2 True) ex_x2 ex_lm2 ex_lv2 None None
       (manual_seed 0) = (Inr (loss, klz), Rng 0 10)
      \<and> shape loss = [2] \<and> shape klz = [2]"
    apply (rule exE [OF forward_per_cell [where out = "ex_out2 True" and n_input = 3
          and T = ex_extern and M = "ex_vae2 True" and x = ex_x2
          and lm = ex_lm2 and lv = ex_lv2 and batch_index = None and y = None
          and ?g0.0 = "manual_seed 0" and g = "Rng 0 10" and b = 2
          and qz = "MultivariateNormal (out_qz_m (ex_out2 True)) (out_qz_v (ex_out2 True))"
          and pz = "MultivariateNormal (torch_zeros 4) (torch_eye 4)",
          THEN conjunct1, THEN mp]])
     apply (simp add: ex2_inference ex_distrib_full VAE_get_prior_params_def
        latent_shapes_def torch_zeros_def torch_eye_def del: One_nat_def)
    apply blast
    done
  have 3: "\<exists>loss klz. LogNormalPoissonVAE_forward ex_extern (ex_lnp2 False) ex_x2 ex_lm2 ex_lv2
       None None (manual_seed 0) = (Inr (loss, klz), Rng 42 10)
      \<and> shape loss = [2] \<and> shape klz = [2]"
    apply (rule exE [OF forward_per_cell [where n_input = 3
          and px_rate = "Tensor [2, 3] (replicate 6 1)"
          and T = ex_extern and L = "ex_lnp2 False" and x = ex_x2
          and lm = ex_lm2 and lv = ex_lv2 and batch_index = None and y = None
          and ?g0.0 = "manual_seed 0" and g' = "Rng 42 10" and b = 2
          and qz_m = "out_qz_m (ex_out2 False)" and qz_v = "out_qz_v (ex_out2 False)"
          and z = "out_z (ex_out2 False)"
          and ql_m = "out_ql_m (ex_out2 False)" and ql_v = "out_ql_v (ex_out2 False)"
          and library = "out_library (ex_out2 False)"
          and qz' = "Normal (expand_to [2, 4] (out_qz_m (ex_out2 False)))
                      (expand_to [2, 4] (torch_sqrt (out_qz_v (ex_out2 False))))"
          and pz' = "Normal (expand_to [4] (torch_zeros 4))
                      (expand_to [4] (torch_sqrt (torch_ones 4)))",
          THEN conjunct2, THEN mp]])
     apply (simp add: ex2_inference_lnp ex_distrib_diag mk_Normal_same
        LogNormalPoissonVAE_get_prior_params_def
        latent_shapes_def torch_zeros_def torch_ones_def del: One_nat_def)
    apply blast
    done
  from 1 2 3 ex2_forward ex2_forward_full ex2_forward_lnp [of "manual_seed 0"]
  show ?thesis by blast
qed


section \<open>The shapes in \<open>ratio_loss\<close>\<close>

text \<open>
  On a model whose latent distributions are elementwise normals, with a batch of \<open>b\<close>
  cells, the five log terms all have the shape \<open>(b)\<close>.
\<close>

lemma ratio_terms_diagonal:
  assumes rl: "reconstruction_loss M = ''zinb'' \<or> reconstruction_loss M = ''nb''"
    and x: "shape x = [b, n_input]"
    and ll: "shape (log_zinb_positive T x (out_px_rate out) (out_px_r out) (out_px_dropout out))
               = butlast (shape x)"
      "shape (log_nb_positive T x (out_px_rate out) (out_px_r out)) = butlast (shape x)"
    and l: "shape (out_ql_m out) = [b, 1]" "shape (out_ql_v out) = [b, 1]"
      "shape lm = [b, 1]" "shape lv = [b, 1]" "shape (out_library out) = [b, 1]"
    and z: "shape (out_z out) = [b, n_latent M]"
    and qz: "enc_distrib (z_encoder M) (out_qz_m out) (out_qz_v out) = Inr (Normal q_loc q_scale)"
      "shape q_loc = [b, n_latent M]"
    and pz: "enc_distrib (z_encoder M) (fst (VAE_get_prior_params M))
               (snd (VAE_get_prior_params M)) = Inr (Normal p_loc p_scale)"
      "shape p_loc = [n_latent M]"
  shows "\<exists>log_px_zl log_pl log_pz log_qz_x log_ql_x.
           ratio_terms T M x lm lv out = Inr (log_px_zl, log_pl, log_pz, log_qz_x, log_ql_x)
           \<and> shape log_px_zl = [b] \<and> shape log_pl = [b] \<and> shape log_pz = [b]
           \<and> shape log_qz_x = [b] \<and> shape log_ql_x = [b]"
proof -
  have ll': "shape (log_zinb_positive T x (out_px_rate out) (out_px_r out) (out_px_dropout out)) = [b]"
    "shape (log_nb_positive T x (out_px_rate out) (out_px_r out)) = [b]"
    using ll x by simp_all
  obtain reconst_loss where r:
    "VAE_reconstruction_loss T M x (out_px_rate out) (out_px_r out) (out_px_dropout out)
       = Inr reconst_loss" "shape reconst_loss = [b]"
    using reconstruction_loss_shape [OF rl ll'] by blast
  have pl: "mk_Normal lm (torch_sqrt lv)
              = Inr (Normal (expand_to [b, 1] lm) (expand_to [b, 1] (torch_sqrt lv)))"
    using l by (simp add: mk_Normal_same)
  have "broadcast_shapes (shape (expand_to [b, 1] lm)) (shape (out_library out)) = Some [b, 1]"
    using l by simp
  from log_prob_Normal_shape [OF this]
  obtain lp_l where lp_l: "log_prob T (Normal (expand_to [b, 1] lm)
      (expand_to [b, 1] (torch_sqrt lv))) (out_library out) = Inr lp_l" "shape lp_l = [b, 1]"
    by blast
  obtain log_pl where log_pl: "t_sum lp_l (-1) = Inr log_pl" "shape log_pl = [b]"
    using t_sum_last_2d [OF lp_l(2), of "-1"] by auto
  have "broadcast_shapes (shape p_loc) (shape (out_z out)) = Some [b, n_latent M]"
    using pz z by (simp add: broadcast_shapes_def)
  from log_prob_Normal_shape [OF this]
  obtain lp_z where lp_z: "log_prob T (Normal p_loc p_scale) (out_z out) = Inr lp_z"
    "shape lp_z = [b, n_latent M]"
    by blast
  obtain log_pz where log_pz: "t_sum lp_z (-1) = Inr log_pz" "shape log_pz = [b]"
    using t_sum_last_2d [OF lp_z(2), of "-1"] by auto
  have "broadcast_shapes (shape q_loc) (shape (out_z out)) = Some [b, n_latent M]"
    using qz z by simp
  from log_prob_Normal_shape [OF this]
  obtain lq_z where lq_z: "log_prob T (Normal q_loc q_scale) (out_z out) = Inr lq_z"
    "shape lq_z = [b, n_latent M]"
    by blast
  obtain log_qz_x where log_qz_x: "t_sum lq_z (-1) = Inr log_qz_x" "shape log_qz_x = [b]"
    using t_sum_last_2d [OF lq_z(2), of "-1"] by auto
  have ql: "mk_Normal (out_ql_m out) (torch_sqrt (out_ql_v out))
              = Inr (Normal (expand_to [b, 1] (out_ql_m out))
                       (expand_to [b, 1] (torch_sqrt (out_ql_v out))))"
    using l by (simp add: mk_Normal_same)
  have "broadcast_shapes (shape (expand_to [b, 1] (out_ql_m out))) (shape (out_library out))
          = Some [b, 1]"
    using l by simp
  from log_prob_Normal_shape [OF this]
  obtain lq_l where lq_l: "log_prob T (Normal (expand_to [b, 1] (out_ql_m out))
      (expand_to [b, 1] (torch_sqrt (out_ql_v out)))) (out_library out) = Inr lq_l"
    "shape lq_l = [b, 1]"
    by blast
  obtain log_ql_x where log_ql_x: "t_sum lq_l (-1) = Inr log_ql_x" "shape log_ql_x = [b]"
    using t_sum_last_2d [OF lq_l(2), of "-1"] by auto
  have "ratio_terms T M x lm lv out
          = Inr (t_neg reconst_loss, log_pl, log_pz, log_qz_x, log_ql_x)"
    using pz(1) qz(1)
    by (simp add: ratio_terms_def VAE_get_prior_params_def r pl lp_l log_pl lp_z log_pz
        lq_z log_qz_x ql lq_l log_ql_x tensor_dim_def del: One_nat_def)
  then show ?thesis
    using r log_pl log_pz log_qz_x log_ql_x by simp
qed

text \<open>
  Five terms of one shape \<open>(b)\<close> pass the assertion, and the negated mean of their
  combination is a scalar.
\<close>

lemma ratio_combine_agree:
  assumes "shape a = [b]" "shape c = [b]" "shape d = [b]" "shape e = [b]" "shape f = [b]"
  shows "shapes_agree (a, c, d, e, f)
         \<and> (\<exists>r. ratio_combine (a, c, d, e, f) = Inr r \<and> shape r = [])"
proof -
  have agree: "shapes_agree (a, c, d, e, f)"
    using assms by (simp add: shapes_agree_def)
  have "broadcast_shapes (shape a) (shape d) = Some [b]" using assms by simp
  from t_bin_shape [OF this]
  obtain s1 where s1: "t_add a d = Inr s1" "shape s1 = [b]"
    unfolding t_add_def by blast
  have "broadcast_shapes (shape s1) (shape c) = Some [b]" using assms s1 by simp
  from t_bin_shape [OF this]
  obtain s2 where s2: "t_add s1 c = Inr s2" "shape s2 = [b]"
    unfolding t_add_def by blast
  have "broadcast_shapes (shape s2) (shape e) = Some [b]" using assms s2 by simp
  from t_bin_shape [OF this]
  obtain s3 where s3: "t_sub s2 e = Inr s3" "shape s3 = [b]"
    unfolding t_sub_def by blast
  have "broadcast_shapes (shape s3) (shape f) = Some [b]" using assms s3 by simp
  from t_bin_shape [OF this]
  obtain s4 where s4: "t_sub s3 f = Inr s4" "shape s4 = [b]"
    unfolding t_sub_def by blast
  have "\<exists>m. t_mean s4 0 = Inr m \<and> shape m = []"
    using s4 by (simp add: t_mean_def reduce_dim_def norm_dim_def)
  then obtain m where m: "t_mean s4 0 = Inr m" "shape m = []" by blast
  have "ratio_combine (a, c, d, e, f) = Inr (t_neg m)"
    using agree by (simp add: ratio_combine_def s1 s2 s3 s4 m)
  then show ?thesis using agree m by simp
qed

text \<open>
  So on such a model \<open>ratio_loss\<close> passes its assertion and returns a scalar; on the
  example model with diagonal covariance it returns 0.
\<close>

lemma ratio_loss_diagonal:
  assumes inf: "VAE_inference T M x batch_index y 1 g0 = (Inr out, g)"
    and rl: "reconstruction_loss M = ''zinb'' \<or> reconstruction_loss M = ''nb''"
    and x: "shape x = [b, n_input]"
    and ll: "shape (log_zinb_positive T x (out_px_rate out) (out_px_r out) (out_px_dropout out))
               = butlast (shape x)"
      "shape (log_nb_positive T x (out_px_rate out) (out_px_r out)) = butlast (shape x)"
    and l: "shape (out_ql_m out) = [b, 1]" "shape (out_ql_v out) = [b, 1]"
      "shape lm = [b, 1]" "shape lv = [b, 1]" "shape (out_library out) = [b, 1]"
    and z: "shape (out_z out) = [b, n_latent M]"
    and qz: "enc_distrib (z_encoder M) (out_qz_m out) (out_qz_v out) = Inr (Normal q_loc q_scale)"
      "shape q_loc = [b, n_latent M]"
    and pz: "enc_distrib (z_encoder M) (fst (VAE_get_prior_params M))
               (snd (VAE_get_prior_params M)) = Inr (Normal p_loc p_scale)"
      "shape p_loc = [n_latent M]"
  shows "\<exists>ts neg_elbo. ratio_terms T M x lm lv out = Inr ts \<and> shapes_agree ts
           \<and> VAE_ratio_loss T M x lm lv batch_index y g0 = (Inr neg_elbo, g)
           \<and> shape neg_elbo = []"
proof -
  obtain a c d e f where ts: "ratio_terms T M x lm lv out = Inr (a, c, d, e, f)"
    "shape a = [b]" "shape c = [b]" "shape d = [b]" "shape e = [b]" "shape f = [b]"
    using ratio_terms_diagonal [OF rl x ll l z qz pz] by blast
  obtain r where r: "shapes_agree (a, c, d, e, f)" "ratio_combine (a, c, d, e, f) = Inr r"
    "shape r = []"
    using ratio_combine_agree [OF ts(2-6)] by blast
  have "VAE_ratio_loss T M x lm lv batch_index y g0 = (Inr r, g)"
    by (simp add: VAE_ratio_loss_def inf ts r)
  then show ?thesis using ts r by blast
qed

text \<open>
  C7. The five log terms of \<open>ratio_loss\<close> are to have one shape, which the assertion
  checks. On the example model with full covariance the assertion fails: the
  log-probability of a multivariate normal has one value per cell already, the sum over
  its last dimension leaves a scalar for \<open>log_pz\<close> and \<open>log_qz_x\<close>, and the other three
  terms have the shape \<open>(1)\<close>.
\<close>

theorem ratio_loss_full_cov_assertion:
  "VAE_ratio_loss ex_extern (ex_vae ''gene'' ''zinb'' True) ex_x (ex_col 0) (ex_col 1) None None
     (manual_seed 0)
   = (Inl AssertionError, Rng 0 2)"
  by (simp add: VAE_ratio_loss_def ex_inference_full ex_ratio_terms_full ratio_combine_def
      shapes_agree_def del: One_nat_def)

end
